theory Spec2Isabelle
  imports
    Complex_Main
    "HOL-Library.AList"
    "HOL-Library.Char_ord"
    "HOL-Library.List_Lexorder"
    "HOL-Library.Sublist"
begin

section \<open>Paths and the file system\<close>

text \<open>
  The pipeline keeps all of its state in a directory tree.  A path is the list of its
  components below the root.  The keys of the catalogs name the animations and are single
  components: for them \<open>d / name\<close> of \<open>pathlib\<close> appends one component.  The \<open>from\<close> of
  a sequence step is free text and is joined the way \<open>pathlib\<close> joins it (\<open>join_path\<close>
  below).  The file system is an association list from paths to nodes, in creation order;
  the root directory always exists.  Nothing in the pipeline deletes a file.
\<close>

type_synonym path = "string list"
type_synonym bytes = string

datatype node = File bytes | Dir

type_synonym filesystem = "(path \<times> node) list"

datatype error = KeyError | IndexError | OSError | ValueError | RuntimeError | ImageError

definition lookup :: "filesystem \<Rightarrow> path \<Rightarrow> node option" where
  "lookup fs p = (if p = [] then Some Dir else map_of fs p)"

definition path_exists :: "filesystem \<Rightarrow> path \<Rightarrow> bool" where
  "path_exists fs p = (lookup fs p \<noteq> None)"

definition is_dir :: "filesystem \<Rightarrow> path \<Rightarrow> bool" where
  "is_dir fs p = (lookup fs p = Some Dir)"

definition parent :: "path \<Rightarrow> path" where
  "parent p = butlast p"

text \<open>\<open>Path.mkdir(parents=True, exist_ok=True)\<close>: every missing ancestor is created, an
  existing directory is left alone, a regular file in the way is an error.\<close>

fun mkdirs :: "filesystem \<Rightarrow> path list \<Rightarrow> error + filesystem" where
  "mkdirs fs [] = Inr fs"
| "mkdirs fs (q # qs) =
     (case lookup fs q of
        Some Dir \<Rightarrow> mkdirs fs qs
      | Some (File b) \<Rightarrow> Inl OSError
      | None \<Rightarrow> mkdirs (fs @ [(q, Dir)]) qs)"

definition mkdir_parents :: "filesystem \<Rightarrow> path \<Rightarrow> error + filesystem" where
  "mkdir_parents fs p = mkdirs fs (prefixes p)"

text \<open>\<open>open(path, "wb")\<close> creates or truncates the file before anything is written to it;
  it fails on a directory and when the parent directory is missing.\<close>

definition open_wb :: "filesystem \<Rightarrow> path \<Rightarrow> error + filesystem" where
  "open_wb fs p =
     (if is_dir fs p then Inl OSError
      else if \<not> is_dir fs (parent p) then Inl OSError
      else Inr (AList.update p (File []) fs))"

definition write_bytes :: "filesystem \<Rightarrow> path \<Rightarrow> bytes \<Rightarrow> filesystem" where
  "write_bytes fs p b = AList.update p (File b) fs"

text \<open>\<open>open(path, "rb").read()\<close>.\<close>

definition read_bytes :: "filesystem \<Rightarrow> path \<Rightarrow> error + bytes" where
  "read_bytes fs p = (case lookup fs p of Some (File b) \<Rightarrow> Inr b | _ \<Rightarrow> Inl OSError)"

subsection \<open>Joining free text to a path\<close>

text \<open>\<open>base / s\<close> for an arbitrary string, as \<open>PurePosixPath\<close> does it: the string is cut
  at every slash, empty components and \<open>.\<close> are dropped, \<open>..\<close> is kept, and a string that
  starts with a slash replaces the base.\<close>

fun split_slash :: "string \<Rightarrow> string list" where
  "split_slash [] = [[]]"
| "split_slash (c # cs) =
     (if c = CHR ''/'' then [] # split_slash cs
      else (case split_slash cs of [] \<Rightarrow> [[c]] | x # xs \<Rightarrow> (c # x) # xs))"

definition path_parts :: "string \<Rightarrow> string list" where
  "path_parts s = filter (\<lambda>c. c \<noteq> [] \<and> c \<noteq> ''.'') (split_slash s)"

definition join_path :: "path \<Rightarrow> string \<Rightarrow> path" where
  "join_path base s = (if s \<noteq> [] \<and> hd s = CHR ''/'' then path_parts s else base @ path_parts s)"

text \<open>A joined path may contain \<open>..\<close>.  The operating system resolves it when the file is
  accessed: walking the components from the root, \<open>..\<close> steps from an existing directory
  to its parent and fails anywhere else.\<close>

fun locate :: "filesystem \<Rightarrow> path \<Rightarrow> path \<Rightarrow> path option" where
  "locate fs cur [] = Some cur"
| "locate fs cur (c # cs) =
     (if c = ''..''
      then (if is_dir fs cur then locate fs (parent cur) cs else None)
      else locate fs (cur @ [c]) cs)"

text \<open>\<open>Path.exists()\<close> and \<open>open(path, "rb").read()\<close> on such a path.\<close>

definition exists_at :: "filesystem \<Rightarrow> path \<Rightarrow> bool" where
  "exists_at fs p = (case locate fs [] p of None \<Rightarrow> False | Some q \<Rightarrow> path_exists fs q)"

definition read_at :: "filesystem \<Rightarrow> path \<Rightarrow> error + bytes" where
  "read_at fs p = (case locate fs [] p of None \<Rightarrow> Inl OSError | Some q \<Rightarrow> read_bytes fs q)"

subsection \<open>Frame file names\<close>

text \<open>The format \<open>{i:02d}\<close>: decimal, padded with zeros to a width of at least two, the
  sign counted in the width.\<close>

definition digit_char :: "nat \<Rightarrow> char" where
  "digit_char d = char_of (48 + d)"

fun str_nat :: "nat \<Rightarrow> string" where
  "str_nat n = (if n < 10 then [digit_char n] else str_nat (n div 10) @ [digit_char (n mod 10)])"

declare str_nat.simps [simp del]

definition fmt_02d :: "int \<Rightarrow> string" where
  "fmt_02d i =
     (if i < 0 then ''-'' @ str_nat (nat (- i))
      else if i < 10 then ''0'' @ str_nat (nat i)
      else str_nat (nat i))"

definition frame_name :: "int \<Rightarrow> string" where
  "frame_name i = ''frame_'' @ fmt_02d i @ ''.png''"

text \<open>The glob pattern \<open>frame_*.png\<close> on a file name.\<close>

definition matches_frame_pattern :: "string \<Rightarrow> bool" where
  "matches_frame_pattern n =
     (10 \<le> length n \<and> take 6 n = ''frame_'' \<and> drop (length n - 4) n = ''.png'')"

text \<open>\<open>directory.glob("frame_*.png")\<close>: the entries of the directory whose name matches,
  in directory order; nothing when the path is not a directory.\<close>

definition frame_entries :: "filesystem \<Rightarrow> path \<Rightarrow> path list" where
  "frame_entries fs d =
     filter (\<lambda>p. p \<noteq> [] \<and> parent p = d \<and> matches_frame_pattern (last p)) (map fst fs)"

definition glob_frames :: "filesystem \<Rightarrow> path \<Rightarrow> path list" where
  "glob_frames fs d = (if is_dir fs d then frame_entries fs d else [])"

section \<open>The world: file system, remote calls, printed lines\<close>

type_synonym dict = "(string \<times> string) list"

text \<open>The remote service answers a request with frames and a cost, or the call fails
  (a status other than 200, a transport error).  Costs are exact reals here; the
  rounding of the program's floating-point additions is not modelled.\<close>

datatype response = Failed | Succeeded "dict list" real

record request =
  req_reference :: path
  req_image :: string
  req_action :: string
  req_width :: int
  req_height :: int

datatype skip_reason = AlreadyHasFrames nat | NoFrame15 | EmoteFramesExist | AlreadyComplete

text \<open>One event for each \<open>print\<close> of the orchestrator, carrying the data of the line.\<close>

datatype event =
    NoItems string
  | Banner string nat nat
  | Skipped string skip_reason
  | Started string string
  | StepStarted nat nat string string
  | SavedFrames nat real
  | StepCost real
  | SavedTotal nat
  | GifWritten string
  | ErrorLine error
  | Complete string real

record world =
  disk :: filesystem
  calls :: "(request \<times> response) list"
  out :: "event list"

definition print :: "event \<Rightarrow> world \<Rightarrow> world" where
  "print e w = w\<lparr>out := out w @ [e]\<rparr>"

text \<open>What the program does not define itself: the environment variable with the API
  key, the remote service (its answer to the n-th request), the transfer encoding, the
  imaging library and the name \<open>tempfile.mktemp\<close> picks.\<close>

record 'i env =
  api_key :: "string option"
  remote :: "nat \<Rightarrow> request \<Rightarrow> response"
  b64decode :: "string \<Rightarrow> bytes option"
  b64encode :: "bytes \<Rightarrow> string"
  image_open :: "bytes \<Rightarrow> 'i option"
  image_resize :: "int \<Rightarrow> 'i \<Rightarrow> 'i option"
  gif_encode :: "'i list \<Rightarrow> int \<Rightarrow> bytes option"
  png_encode :: "'i \<Rightarrow> bytes option"
  mktemp :: "filesystem \<Rightarrow> path"

section \<open>assembler.py\<close>

text \<open>The loop of \<open>save_frames\<close> and \<open>save_frames_offset\<close>; \<open>i\<close> is the number the
  current frame is saved under.\<close>

fun write_frames ::
  "'i env \<Rightarrow> path \<Rightarrow> int \<Rightarrow> dict list \<Rightarrow> path list \<Rightarrow> world \<Rightarrow> (error + path list) \<times> world"
where
  "write_frames env d i [] paths w = (Inr paths, w)"
| "write_frames env d i (frame # rest) paths w =
     (let p = d @ [frame_name i] in
      case open_wb (disk w) p of
        Inl e \<Rightarrow> (Inl e, w)
      | Inr fs1 \<Rightarrow>
          (case map_of frame ''base64'' of
             None \<Rightarrow> (Inl KeyError, w\<lparr>disk := fs1\<rparr>)
           | Some s \<Rightarrow>
               (case b64decode env s of
                  None \<Rightarrow> (Inl ValueError, w\<lparr>disk := fs1\<rparr>)
                | Some b \<Rightarrow>
                    write_frames env d (i + 1) rest (paths @ [p])
                      (w\<lparr>disk := write_bytes fs1 p b\<rparr>))))"

definition save_frames_offset ::
  "'i env \<Rightarrow> dict list \<Rightarrow> path \<Rightarrow> int \<Rightarrow> world \<Rightarrow> (error + path list) \<times> world"
where
  "save_frames_offset env frames output_dir offset w =
     (case mkdir_parents (disk w) output_dir of
        Inl e \<Rightarrow> (Inl e, w)
      | Inr fs1 \<Rightarrow> write_frames env output_dir offset frames [] (w\<lparr>disk := fs1\<rparr>))"

definition save_frames ::
  "'i env \<Rightarrow> dict list \<Rightarrow> path \<Rightarrow> world \<Rightarrow> (error + path list) \<times> world"
where
  "save_frames env frames output_dir w =
     (case mkdir_parents (disk w) output_dir of
        Inl e \<Rightarrow> (Inl e, w)
      | Inr fs1 \<Rightarrow> write_frames env output_dir 0 frames [] (w\<lparr>disk := fs1\<rparr>))"

text \<open>\<open>sorted(frame_dir.glob("frame_*.png"))\<close>: paths compare component by component,
  components as strings.\<close>

definition list_frames :: "filesystem \<Rightarrow> path \<Rightarrow> path list" where
  "list_frames fs d = sort (glob_frames fs d)"

text \<open>\<open>Image.open(f)\<close> on a path.\<close>

definition open_image :: "'i env \<Rightarrow> filesystem \<Rightarrow> path \<Rightarrow> error + 'i" where
  "open_image env fs p =
     (case read_bytes fs p of
        Inl e \<Rightarrow> Inl e
      | Inr b \<Rightarrow> (case image_open env b of None \<Rightarrow> Inl ImageError | Some img \<Rightarrow> Inr img))"

fun open_images :: "'i env \<Rightarrow> filesystem \<Rightarrow> path list \<Rightarrow> error + 'i list" where
  "open_images env fs [] = Inr []"
| "open_images env fs (p # ps) =
     (case open_image env fs p of
        Inl e \<Rightarrow> Inl e
      | Inr img \<Rightarrow> (case open_images env fs ps of Inl e \<Rightarrow> Inl e | Inr imgs \<Rightarrow> Inr (img # imgs)))"

fun resize_images :: "'i env \<Rightarrow> int \<Rightarrow> 'i list \<Rightarrow> error + 'i list" where
  "resize_images env sz [] = Inr []"
| "resize_images env sz (img # imgs) =
     (case image_resize env sz img of
        None \<Rightarrow> Inl ImageError
      | Some r \<Rightarrow> (case resize_images env sz imgs of Inl e \<Rightarrow> Inl e | Inr rs \<Rightarrow> Inr (r # rs)))"

text \<open>Writing an encoded image to \<open>output_path\<close>, after \<open>output_path.parent.mkdir\<close>.\<close>

definition save_encoded :: "bytes option \<Rightarrow> path \<Rightarrow> world \<Rightarrow> (error + path option) \<times> world" where
  "save_encoded data output_path w =
     (case mkdir_parents (disk w) (parent output_path) of
        Inl e \<Rightarrow> (Inl e, w)
      | Inr fs1 \<Rightarrow>
          (case data of
             None \<Rightarrow> (Inl ImageError, w\<lparr>disk := fs1\<rparr>)
           | Some b \<Rightarrow>
               (case open_wb fs1 output_path of
                  Inl e \<Rightarrow> (Inl e, w\<lparr>disk := fs1\<rparr>)
                | Inr fs2 \<Rightarrow> (Inr (Some output_path), w\<lparr>disk := write_bytes fs2 output_path b\<rparr>))))"

definition frames_to_gif ::
  "'i env \<Rightarrow> path \<Rightarrow> path \<Rightarrow> int \<Rightarrow> int \<Rightarrow> world \<Rightarrow> (error + path option) \<times> world"
where
  "frames_to_gif env frame_dir output_path upscale_size duration_ms w =
     (let frame_files = list_frames (disk w) frame_dir in
      if frame_files = [] then (Inr None, w)
      else
        case open_images env (disk w) frame_files of
          Inl e \<Rightarrow> (Inl e, w)
        | Inr frames \<Rightarrow>
            (case resize_images env upscale_size frames of
               Inl e \<Rightarrow> (Inl e, w)
             | Inr upscaled \<Rightarrow> save_encoded (gif_encode env upscaled duration_ms) output_path w))"

text \<open>The first lines of \<open>create_static_fallback\<close>: the frame file the fallback is made
  from, \<open>None\<close> when the function returns \<open>None\<close> at once.\<close>

definition select_static_frame :: "filesystem \<Rightarrow> path \<Rightarrow> int \<Rightarrow> path option" where
  "select_static_frame fs frame_dir frame_index =
     (let frame_file = frame_dir @ [frame_name frame_index] in
      if \<not> path_exists fs frame_file
      then (let frames = list_frames fs frame_dir in
            if frames = [] then None else Some (last frames))
      else Some frame_file)"

definition create_static_fallback ::
  "'i env \<Rightarrow> path \<Rightarrow> path \<Rightarrow> int \<Rightarrow> int \<Rightarrow> world \<Rightarrow> (error + path option) \<times> world"
where
  "create_static_fallback env frame_dir output_path upscale_size frame_index w =
     (case select_static_frame (disk w) frame_dir frame_index of
        None \<Rightarrow> (Inr None, w)
      | Some frame_file \<Rightarrow>
          (case open_image env (disk w) frame_file of
             Inl e \<Rightarrow> (Inl e, w)
           | Inr img \<Rightarrow>
               (case image_resize env upscale_size img of
                  None \<Rightarrow> (Inl ImageError, w)
                | Some upscaled \<Rightarrow> save_encoded (png_encode env upscaled) output_path w)))"

section \<open>config.py\<close>

text \<open>The catalogs are dictionaries in file order.  A single, an emote, a cycle and a
  sequence step are flat dictionaries of strings; a chain or journey has an optional
  label and its steps (\<open>entry.get("steps", [])\<close>: none when the key is missing).\<close>

record sequence =
  label :: "string option"
  steps :: "dict list"

record config =
  reference :: path
  output_dir :: path
  frame_size :: int
  upscale_size :: int
  frame_duration_ms :: int
  singles :: "(string \<times> dict) list"
  emotes :: "(string \<times> dict) list"
  chains :: "(string \<times> sequence) list"
  journeys :: "(string \<times> sequence) list"
  cycles :: "(string \<times> dict) list"

definition singles_dir :: "config \<Rightarrow> path" where
  "singles_dir cfg = output_dir cfg @ [''singles'']"

definition chains_dir :: "config \<Rightarrow> path" where
  "chains_dir cfg = output_dir cfg @ [''chains'']"

definition journeys_dir :: "config \<Rightarrow> path" where
  "journeys_dir cfg = output_dir cfg @ [''journeys'']"

definition cycles_dir :: "config \<Rightarrow> path" where
  "cycles_dir cfg = output_dir cfg @ [''cycles'']"

definition static_dir :: "config \<Rightarrow> path" where
  "static_dir cfg = output_dir cfg @ [''static'']"

record counts =
  n_singles :: nat
  n_emotes :: nat
  n_chains :: nat
  n_journeys :: nat
  n_cycles :: nat
  total_api_calls :: nat

definition count_animations :: "config \<Rightarrow> counts" where
  "count_animations cfg =
     (let s = length (singles cfg);
          e = length (emotes cfg);
          c = sum_list (map (\<lambda>(name, entry). length (steps entry)) (chains cfg));
          j = sum_list (map (\<lambda>(name, entry). length (steps entry)) (journeys cfg));
          y = length (cycles cfg)
      in \<lparr>n_singles = s, n_emotes = e, n_chains = c, n_journeys = j, n_cycles = y,
           total_api_calls = s + e + c + j + y\<rparr>)"

definition estimate_cost :: "config \<Rightarrow> real" where
  "estimate_cost cfg = real (total_api_calls (count_animations cfg)) * 0.16"

section \<open>client.py\<close>

definition encode_image :: "'i env \<Rightarrow> filesystem \<Rightarrow> path \<Rightarrow> error + dict" where
  "encode_image env fs p =
     (case read_at fs p of
        Inl e \<Rightarrow> Inl e
      | Inr b \<Rightarrow> Inr [(''type'', ''base64''), (''base64'', b64encode env b), (''format'', ''png'')])"

definition get_api_key :: "'i env \<Rightarrow> error + string" where
  "get_api_key env =
     (case api_key env of
        None \<Rightarrow> Inl RuntimeError
      | Some k \<Rightarrow> if k = [] then Inl RuntimeError else Inr k)"

text \<open>One remote call.  The reference image is read and the key is looked up before the
  request is sent; only a request that is sent is entered in \<open>calls\<close>, with its answer.\<close>

definition generate_animation ::
  "'i env \<Rightarrow> path \<Rightarrow> string \<Rightarrow> int \<Rightarrow> int \<Rightarrow> world \<Rightarrow> (error + dict list \<times> real) \<times> world"
where
  "generate_animation env reference_path action width height w =
     (case encode_image env (disk w) reference_path of
        Inl e \<Rightarrow> (Inl e, w)
      | Inr image_data \<Rightarrow>
          (case get_api_key env of
             Inl e \<Rightarrow> (Inl e, w)
           | Inr key \<Rightarrow>
               (let req = \<lparr>req_reference = reference_path,
                           req_image = (case map_of image_data ''base64'' of Some s \<Rightarrow> s | None \<Rightarrow> []),
                           req_action = action, req_width = width, req_height = height\<rparr>;
                    r = remote env (length (calls w)) req;
                    w1 = w\<lparr>calls := calls w @ [(req, r)]\<rparr>
                in case r of
                     Failed \<Rightarrow> (Inl RuntimeError, w1)
                   | Succeeded images cost \<Rightarrow> (Inr (images, cost), w1))))"

section \<open>generator.py\<close>

definition has_frames :: "filesystem \<Rightarrow> path \<Rightarrow> nat \<Rightarrow> bool" where
  "has_frames fs directory min_count =
     (if \<not> path_exists fs directory then False
      else min_count \<le> length (glob_frames fs directory))"

definition assemble_animation ::
  "'i env \<Rightarrow> config \<Rightarrow> path \<Rightarrow> string \<Rightarrow> world \<Rightarrow> (error + unit) \<times> world"
where
  "assemble_animation env cfg frame_dir name w =
     (let gif_path = parent frame_dir @ [name @ ''.gif''] in
      case frames_to_gif env frame_dir gif_path (upscale_size cfg) (frame_duration_ms cfg) w of
        (Inl e, w1) \<Rightarrow> (Inl e, w1)
      | (Inr g, w1) \<Rightarrow>
          (let w2 = (if path_exists (disk w1) gif_path
                     then print (GifWritten (name @ ''.gif'')) w1 else w1);
               static_path = static_dir cfg @ [name @ ''.png'']
           in case create_static_fallback env frame_dir static_path (upscale_size cfg) 15 w2 of
                (Inl e, w3) \<Rightarrow> (Inl e, w3)
              | (Inr s, w3) \<Rightarrow> (Inr (), w3)))"

text \<open>\<open>if targets: items = {k: v for k, v in items.items() if k in targets}\<close>\<close>

definition select_items :: "string list option \<Rightarrow> (string \<times> 'a) list \<Rightarrow> (string \<times> 'a) list" where
  "select_items targets items =
     (case targets of
        None \<Rightarrow> items
      | Some ts \<Rightarrow> if ts = [] then items else filter (\<lambda>(k, v). k \<in> set ts) items)"

subsection \<open>Singles\<close>

text \<open>One pass of the loop of \<open>generate_singles\<close>.  Everything that can raise is inside
  the \<open>try\<close>, so the pass always ends with a total.\<close>

definition single_item :: "'i env \<Rightarrow> config \<Rightarrow> string \<times> dict \<Rightarrow> real \<times> world \<Rightarrow> real \<times> world" where
  "single_item env cfg item st =
     (let name = fst item; entry = snd item; total_cost = fst st; w = snd st;
          frame_dir = singles_dir cfg @ [name]
      in if has_frames (disk w) frame_dir 16
         then (total_cost,
               print (Skipped name (AlreadyHasFrames (length (glob_frames (disk w) frame_dir)))) w)
         else
           (let w0 = print (Started ''Generating'' name) w in
            case map_of entry ''prompt'' of
              None \<Rightarrow> (total_cost, print (ErrorLine KeyError) w0)
            | Some prompt \<Rightarrow>
                (case generate_animation env (reference cfg) prompt (frame_size cfg) (frame_size cfg) w0 of
                   (Inl e, w1) \<Rightarrow> (total_cost, print (ErrorLine e) w1)
                 | (Inr (frames, cost), w1) \<Rightarrow>
                     (case save_frames env frames frame_dir w1 of
                        (Inl e, w2) \<Rightarrow> (total_cost, print (ErrorLine e) w2)
                      | (Inr saved, w2) \<Rightarrow>
                          (case assemble_animation env cfg frame_dir name
                                  (print (SavedFrames (length saved) cost) w2) of
                             (Inl e, w3) \<Rightarrow> (total_cost + cost, print (ErrorLine e) w3)
                           | (Inr u, w3) \<Rightarrow> (total_cost + cost, w3))))))"

definition generate_singles :: "'i env \<Rightarrow> config \<Rightarrow> string list option \<Rightarrow> world \<Rightarrow> real \<times> world" where
  "generate_singles env cfg targets w =
     (let items = select_items targets (singles cfg) in
      if items = [] then (0, print (NoItems ''singles'') w)
      else
        (let st = fold (single_item env cfg) items
                    (0, print (Banner ''singles'' (length items) (length items)) w)
         in (fst st, print (Complete ''Singles'' (fst st)) (snd st))))"

subsection \<open>Emotes\<close>

definition emote_item :: "'i env \<Rightarrow> config \<Rightarrow> string \<times> dict \<Rightarrow> real \<times> world \<Rightarrow> real \<times> world" where
  "emote_item env cfg item st =
     (let name = fst item; entry = snd item; total_cost = fst st; w = snd st;
          frame_dir = singles_dir cfg @ [name];
          ref_frame = frame_dir @ [''frame_15.png'']
      in if \<not> path_exists (disk w) ref_frame
         then (total_cost, print (Skipped name NoFrame15) w)
         else if path_exists (disk w) (frame_dir @ [''frame_16.png''])
         then (total_cost, print (Skipped name EmoteFramesExist) w)
         else
           (let w0 = print (Started ''Emote'' name) w in
            case map_of entry ''prompt'' of
              None \<Rightarrow> (total_cost, print (ErrorLine KeyError) w0)
            | Some prompt \<Rightarrow>
                (case generate_animation env ref_frame prompt (frame_size cfg) (frame_size cfg) w0 of
                   (Inl e, w1) \<Rightarrow> (total_cost, print (ErrorLine e) w1)
                 | (Inr (frames, cost), w1) \<Rightarrow>
                     (case save_frames_offset env frames frame_dir 16 w1 of
                        (Inl e, w2) \<Rightarrow> (total_cost, print (ErrorLine e) w2)
                      | (Inr saved, w2) \<Rightarrow>
                          (case assemble_animation env cfg frame_dir name
                                  (print (SavedFrames (length frames) cost) w2) of
                             (Inl e, w3) \<Rightarrow> (total_cost + cost, print (ErrorLine e) w3)
                           | (Inr u, w3) \<Rightarrow> (total_cost + cost, w3))))))"

definition generate_emotes :: "'i env \<Rightarrow> config \<Rightarrow> string list option \<Rightarrow> world \<Rightarrow> real \<times> world" where
  "generate_emotes env cfg targets w =
     (let items = select_items targets (emotes cfg) in
      if items = [] then (0, print (NoItems ''emotes'') w)
      else
        (let st = fold (emote_item env cfg) items
                    (0, print (Banner ''emotes'' (length items) (length items)) w)
         in (fst st, print (Complete ''Emotes'' (fst st)) (snd st))))"

subsection \<open>The reference of a sequence step\<close>

definition resolve_step_reference ::
  "'i env \<Rightarrow> config \<Rightarrow> dict \<Rightarrow> dict list \<Rightarrow> world \<Rightarrow> (error + path) \<times> world"
where
  "resolve_step_reference env cfg step previous_frames w =
     (let from_shape = (case map_of step ''from'' of None \<Rightarrow> [] | Some s \<Rightarrow> s) in
      if from_shape = [] \<or> from_shape \<in> set [''liquid'', ''reference'', ''base'']
      then (Inr (reference cfg), w)
      else
        (let shape_dir = join_path (singles_dir cfg) from_shape;
             ref = shape_dir @ [''frame_15.png''] in
         if exists_at (disk w) ref then (Inr ref, w)
         else if previous_frames \<noteq> [] then
           (let tmp = mktemp env (disk w) in
            case open_wb (disk w) tmp of
              Inl e \<Rightarrow> (Inl e, w)
            | Inr fs1 \<Rightarrow>
                (case map_of (last previous_frames) ''base64'' of
                   None \<Rightarrow> (Inl KeyError, w\<lparr>disk := fs1\<rparr>)
                 | Some s \<Rightarrow>
                     (case b64decode env s of
                        None \<Rightarrow> (Inl ValueError, w\<lparr>disk := fs1\<rparr>)
                      | Some b \<Rightarrow> (Inr tmp, w\<lparr>disk := write_bytes fs1 tmp b\<rparr>))))
         else (Inr (reference cfg), w)))"

subsection \<open>Chains and journeys\<close>

text \<open>The loop over the steps, the same text in \<open>generate_chains\<close> and
  \<open>generate_journeys\<close>: \<open>n\<close> is \<open>len(steps)\<close>, \<open>step_idx\<close> the index of the first step
  of the list.  A failure inside the \<open>try\<close> ends the loop (\<open>break\<close>); resolving the
  reference is outside the \<open>try\<close>, so its errors leave the generator.\<close>

fun run_steps ::
  "'i env \<Rightarrow> config \<Rightarrow> nat \<Rightarrow> nat \<Rightarrow> dict list \<Rightarrow> dict list \<Rightarrow> real \<Rightarrow> world
     \<Rightarrow> (error + dict list \<times> real) \<times> world"
where
  "run_steps env cfg n step_idx [] all_frames total_cost w = (Inr (all_frames, total_cost), w)"
| "run_steps env cfg n step_idx (step # rest) all_frames total_cost w =
     (case resolve_step_reference env cfg step all_frames w of
        (Inl e, w1) \<Rightarrow> (Inl e, w1)
      | (Inr ref, w1) \<Rightarrow>
          (let from_s = (case map_of step ''from'' of None \<Rightarrow> ''?'' | Some s \<Rightarrow> s);
               to_s = (case map_of step ''to'' of None \<Rightarrow> ''?'' | Some s \<Rightarrow> s);
               w2 = print (StepStarted (step_idx + 1) n from_s to_s) w1
           in case map_of step ''prompt'' of
                None \<Rightarrow> (Inr (all_frames, total_cost), print (ErrorLine KeyError) w2)
              | Some prompt \<Rightarrow>
                  (case generate_animation env ref prompt (frame_size cfg) (frame_size cfg) w2 of
                     (Inl e, w3) \<Rightarrow> (Inr (all_frames, total_cost), print (ErrorLine e) w3)
                   | (Inr (frames, cost), w3) \<Rightarrow>
                       run_steps env cfg n (step_idx + 1) rest (all_frames @ frames)
                         (total_cost + cost) (print (StepCost cost) w3))))"

text \<open>One pass of the outer loop; \<open>kind\<close> is the word printed, \<open>base\<close> the directory of
  the kind.\<close>

definition sequence_item ::
  "'i env \<Rightarrow> config \<Rightarrow> string \<Rightarrow> path \<Rightarrow> string \<times> sequence \<Rightarrow> real \<Rightarrow> world
     \<Rightarrow> (error + real) \<times> world"
where
  "sequence_item env cfg kind base item total_cost w =
     (let name = fst item; entry = snd item;
          seq_dir = base @ [name];
          expected_frames = length (steps entry) * 16
      in if has_frames (disk w) seq_dir expected_frames
         then (Inr total_cost, print (Skipped name AlreadyComplete) w)
         else
           (let w0 = print (Started kind (case label entry of None \<Rightarrow> name | Some l \<Rightarrow> l)) w in
            case mkdir_parents (disk w0) seq_dir of
              Inl e \<Rightarrow> (Inl e, w0)
            | Inr fs1 \<Rightarrow>
                (case run_steps env cfg (length (steps entry)) 0 (steps entry) [] total_cost
                        (w0\<lparr>disk := fs1\<rparr>) of
                   (Inl e, w1) \<Rightarrow> (Inl e, w1)
                 | (Inr (all_frames, total1), w1) \<Rightarrow>
                     if all_frames \<noteq> [] then
                       (case save_frames env all_frames seq_dir w1 of
                          (Inl e, w2) \<Rightarrow> (Inl e, w2)
                        | (Inr saved, w2) \<Rightarrow>
                            (case assemble_animation env cfg seq_dir name
                                    (print (SavedTotal (length saved)) w2) of
                               (Inl e, w3) \<Rightarrow> (Inl e, w3)
                             | (Inr u, w3) \<Rightarrow> (Inr total1, w3)))
                     else (Inr total1, w1))))"

text \<open>A \<open>for\<close> loop whose body may raise: the first error ends the loop and the function.\<close>

fun for_each ::
  "('a \<Rightarrow> real \<Rightarrow> world \<Rightarrow> (error + real) \<times> world) \<Rightarrow> 'a list \<Rightarrow> real \<Rightarrow> world
     \<Rightarrow> (error + real) \<times> world"
where
  "for_each body [] total_cost w = (Inr total_cost, w)"
| "for_each body (item # rest) total_cost w =
     (case body item total_cost w of
        (Inl e, w1) \<Rightarrow> (Inl e, w1)
      | (Inr total1, w1) \<Rightarrow> for_each body rest total1 w1)"

definition total_steps :: "(string \<times> sequence) list \<Rightarrow> nat" where
  "total_steps items = sum_list (map (\<lambda>(name, entry). length (steps entry)) items)"

definition generate_chains :: "'i env \<Rightarrow> config \<Rightarrow> world \<Rightarrow> (error + real) \<times> world" where
  "generate_chains env cfg w =
     (if chains cfg = [] then (Inr 0, print (NoItems ''chains'') w)
      else
        case for_each (sequence_item env cfg ''Chain'' (chains_dir cfg)) (chains cfg) 0
               (print (Banner ''chains'' (length (chains cfg)) (total_steps (chains cfg))) w) of
          (Inl e, w1) \<Rightarrow> (Inl e, w1)
        | (Inr total_cost, w1) \<Rightarrow> (Inr total_cost, print (Complete ''Chains'' total_cost) w1))"

definition generate_journeys ::
  "'i env \<Rightarrow> config \<Rightarrow> string list option \<Rightarrow> world \<Rightarrow> (error + real) \<times> world"
where
  "generate_journeys env cfg targets w =
     (let items = select_items targets (journeys cfg) in
      if items = [] then (Inr 0, print (NoItems ''journeys'') w)
      else
        case for_each (sequence_item env cfg ''Journey'' (journeys_dir cfg)) items 0
               (print (Banner ''journeys'' (length items) (total_steps items)) w) of
          (Inl e, w1) \<Rightarrow> (Inl e, w1)
        | (Inr total_cost, w1) \<Rightarrow> (Inr total_cost, print (Complete ''Journeys'' total_cost) w1))"

subsection \<open>Cycles\<close>

text \<open>The forward half: \<open>None\<close> is the \<open>continue\<close> of the \<open>except\<close> branch, otherwise the
  forward frame files and the new total.\<close>

definition cycle_forward ::
  "'i env \<Rightarrow> config \<Rightarrow> dict \<Rightarrow> string \<Rightarrow> real \<Rightarrow> world \<Rightarrow> (path list \<times> real) option \<times> world"
where
  "cycle_forward env cfg entry shape total_cost w =
     (let forward_dir = singles_dir cfg @ [shape];
          w0 = print (Started ''forward'' shape) w
      in case map_of entry ''forward_prompt'' of
           None \<Rightarrow> (None, print (ErrorLine KeyError) w0)
         | Some prompt \<Rightarrow>
             (case generate_animation env (reference cfg) prompt (frame_size cfg) (frame_size cfg) w0 of
                (Inl e, w1) \<Rightarrow> (None, print (ErrorLine e) w1)
              | (Inr (frames, cost), w1) \<Rightarrow>
                  (case save_frames env frames forward_dir w1 of
                     (Inl e, w2) \<Rightarrow> (None, print (ErrorLine e) w2)
                   | (Inr saved, w2) \<Rightarrow>
                       (Some (list_frames (disk w2) forward_dir, total_cost + cost), w2))))"

text \<open>The reverse half: \<open>None\<close> is again the \<open>continue\<close>.\<close>

definition cycle_reverse ::
  "'i env \<Rightarrow> config \<Rightarrow> dict \<Rightarrow> string \<Rightarrow> path \<Rightarrow> real \<Rightarrow> world \<Rightarrow> (dict list \<times> real) option \<times> world"
where
  "cycle_reverse env cfg entry shape last_frame total_cost w =
     (let w0 = print (Started ''reverse'' shape) w in
      case map_of entry ''reverse_prompt'' of
        None \<Rightarrow> (None, print (ErrorLine KeyError) w0)
      | Some prompt \<Rightarrow>
          (case generate_animation env last_frame prompt (frame_size cfg) (frame_size cfg) w0 of
             (Inl e, w1) \<Rightarrow> (None, print (ErrorLine e) w1)
           | (Inr (reverse_frames, cost), w1) \<Rightarrow> (Some (reverse_frames, total_cost + cost), w1)))"

text \<open>Reading the forward frames back from disk and encoding them again.\<close>

fun read_forward :: "'i env \<Rightarrow> filesystem \<Rightarrow> path list \<Rightarrow> error + dict list" where
  "read_forward env fs [] = Inr []"
| "read_forward env fs (fp # fps) =
     (case read_bytes fs fp of
        Inl e \<Rightarrow> Inl e
      | Inr b \<Rightarrow>
          (case read_forward env fs fps of
             Inl e \<Rightarrow> Inl e
           | Inr ds \<Rightarrow>
               Inr ([(''type'', ''base64''), (''base64'', b64encode env b), (''format'', ''png'')] # ds)))"

text \<open>From \<open>last_frame = forward_frames[-1]\<close> to the end of the loop body.\<close>

definition cycle_finish ::
  "'i env \<Rightarrow> config \<Rightarrow> string \<Rightarrow> dict \<Rightarrow> string \<Rightarrow> path list \<Rightarrow> real \<Rightarrow> world
     \<Rightarrow> (error + real) \<times> world"
where
  "cycle_finish env cfg cycle_name entry shape forward_frames total_cost w =
     (if forward_frames = [] then (Inl IndexError, w)
      else
        case cycle_reverse env cfg entry shape (last forward_frames) total_cost w of
          (None, w1) \<Rightarrow> (Inr total_cost, w1)
        | (Some (reverse_frames, total1), w1) \<Rightarrow>
            (case read_forward env (disk w1) forward_frames of
               Inl e \<Rightarrow> (Inl e, w1)
             | Inr fwd \<Rightarrow>
                 (case save_frames env (fwd @ reverse_frames) (cycles_dir cfg @ [cycle_name]) w1 of
                    (Inl e, w2) \<Rightarrow> (Inl e, w2)
                  | (Inr saved, w2) \<Rightarrow>
                      (case assemble_animation env cfg (cycles_dir cfg @ [cycle_name]) cycle_name
                              (print (SavedTotal (length saved)) w2) of
                         (Inl e, w3) \<Rightarrow> (Inl e, w3)
                       | (Inr u, w3) \<Rightarrow> (Inr total1, w3)))))"

definition cycle_item ::
  "'i env \<Rightarrow> config \<Rightarrow> string \<times> dict \<Rightarrow> real \<Rightarrow> world \<Rightarrow> (error + real) \<times> world"
where
  "cycle_item env cfg item total_cost w =
     (let cycle_name = fst item; entry = snd item;
          cycle_dir = cycles_dir cfg @ [cycle_name]
      in if has_frames (disk w) cycle_dir 32
         then (Inr total_cost, print (Skipped cycle_name AlreadyComplete) w)
         else
           case map_of entry ''shape'' of
             None \<Rightarrow> (Inl KeyError, w)
           | Some shape \<Rightarrow>
               (let forward_dir = singles_dir cfg @ [shape];
                    forward_frames =
                      (if path_exists (disk w) forward_dir then list_frames (disk w) forward_dir
                       else []);
                    w0 = print (Started ''Cycle'' cycle_name) w
                in if forward_frames = [] then
                     (case cycle_forward env cfg entry shape total_cost w0 of
                        (None, w1) \<Rightarrow> (Inr total_cost, w1)
                      | (Some (forward_frames1, total1), w1) \<Rightarrow>
                          cycle_finish env cfg cycle_name entry shape forward_frames1 total1 w1)
                   else cycle_finish env cfg cycle_name entry shape forward_frames total_cost w0))"

definition generate_cycles :: "'i env \<Rightarrow> config \<Rightarrow> world \<Rightarrow> (error + real) \<times> world" where
  "generate_cycles env cfg w =
     (if cycles cfg = [] then (Inr 0, print (NoItems ''cycles'') w)
      else
        case for_each (cycle_item env cfg) (cycles cfg) 0
               (print (Banner ''cycles'' (length (cycles cfg)) (length (cycles cfg))) w) of
          (Inl e, w1) \<Rightarrow> (Inl e, w1)
        | (Inr total_cost, w1) \<Rightarrow> (Inr total_cost, print (Complete ''Cycles'' total_cost) w1))"

section \<open>Concrete inputs\<close>

text \<open>A project with two singles, one emote, one chain of two steps, one journey of three
  steps and one cycle.\<close>

definition example_config :: config where
  "example_config =
     \<lparr>reference = [''proj'', ''reference.png''], output_dir = [''proj'', ''output''],
      frame_size = 64, upscale_size = 512, frame_duration_ms = 200,
      singles = [(''flame'', [(''prompt'', ''to flame'')]), (''wave'', [(''prompt'', ''to wave'')])],
      emotes = [(''flame'', [(''prompt'', ''flicker'')])],
      chains = [(''rise'', \<lparr>label = None,
                  steps = [[(''from'', ''reference''), (''to'', ''flame''), (''prompt'', ''p1'')],
                           [(''from'', ''flame''), (''to'', ''wave''), (''prompt'', ''p2'')]]\<rparr>)],
      journeys = [(''trip'', \<lparr>label = Some ''Trip'',
                  steps = [[(''prompt'', ''q1'')], [(''prompt'', ''q2'')], [(''prompt'', ''q3'')]]\<rparr>)],
      cycles = [(''loop'', [(''shape'', ''flame''), (''forward_prompt'', ''f''),
                           (''reverse_prompt'', ''r'')])]\<rparr>"

text \<open>An environment in which the transfer encoding and the image codecs are the identity
  on byte strings and the service answers every request with one frame.\<close>

definition example_env :: "string env" where
  "example_env =
     \<lparr>api_key = Some ''key'',
      remote = (\<lambda>n req. Succeeded [[(''type'', ''base64''), (''base64'', ''AAAA''), (''format'', ''png'')]] 0.16),
      b64decode = Some,
      b64encode = (\<lambda>b. b),
      image_open = Some,
      image_resize = (\<lambda>sz img. Some img),
      gif_encode = (\<lambda>imgs d. Some (concat imgs)),
      png_encode = Some,
      mktemp = (\<lambda>fs. [''tmp'', ''tmpa1b2c3.png''])\<rparr>"

text \<open>A project directory with the reference image and an empty frame directory.\<close>

definition empty_dir_world :: world where
  "empty_dir_world =
     \<lparr>disk = [([''proj''], Dir), ([''proj'', ''reference.png''], File ''REF''),
              ([''proj'', ''empty''], Dir)],
      calls = [], out = []\<rparr>"

text \<open>\<open>n\<close> frame files in a directory, numbered from 0.\<close>

definition frame_files :: "path \<Rightarrow> nat \<Rightarrow> filesystem" where
  "frame_files d n = map (\<lambda>i. (d @ [frame_name (int i)], File ''PNG'')) [0..<n]"

text \<open>An output tree in which one animation of each kind is complete.\<close>

definition complete_base :: filesystem where
  "complete_base =
     [([''tmp''], Dir),
      ([''proj''], Dir), ([''proj'', ''reference.png''], File ''REF''),
      ([''proj'', ''output''], Dir),
      ([''proj'', ''output'', ''singles''], Dir),
      ([''proj'', ''output'', ''singles'', ''flame''], Dir),
      ([''proj'', ''output'', ''chains''], Dir),
      ([''proj'', ''output'', ''chains'', ''rise''], Dir),
      ([''proj'', ''output'', ''journeys''], Dir),
      ([''proj'', ''output'', ''journeys'', ''trip''], Dir),
      ([''proj'', ''output'', ''cycles''], Dir),
      ([''proj'', ''output'', ''cycles'', ''loop''], Dir)]"

definition complete_world :: world where
  "complete_world =
     \<lparr>disk = complete_base
             @ frame_files [''proj'', ''output'', ''singles'', ''flame''] 16
             @ frame_files [''proj'', ''output'', ''chains'', ''rise''] 32
             @ frame_files [''proj'', ''output'', ''journeys'', ''trip''] 48
             @ frame_files [''proj'', ''output'', ''cycles'', ''loop''] 32,
      calls = [], out = []\<rparr>"

text \<open>An output tree with the last frame of one single and four frames of another.\<close>

definition small_world :: world where
  "small_world =
     \<lparr>disk = [([''tmp''], Dir),
              ([''proj''], Dir), ([''proj'', ''reference.png''], File ''REF''),
              ([''proj'', ''output''], Dir),
              ([''proj'', ''output'', ''singles''], Dir),
              ([''proj'', ''output'', ''singles'', ''flame''], Dir),
              ([''proj'', ''output'', ''singles'', ''flame'', ''frame_15.png''], File ''F15''),
              ([''proj'', ''output'', ''singles'', ''wave''], Dir),
              ([''proj'', ''output'', ''singles'', ''wave'', ''frame_01.png''], File ''W1''),
              ([''proj'', ''output'', ''singles'', ''wave'', ''frame_03.png''], File ''W3''),
              ([''proj'', ''output'', ''singles'', ''wave'', ''frame_00.png''], File ''W0''),
              ([''proj'', ''output'', ''singles'', ''wave'', ''frame_02.png''], File ''W2'')],
      calls = [], out = []\<rparr>"

text \<open>A frame file name whose index is written with exactly two digits.\<close>

definition is_digit :: "char \<Rightarrow> bool" where
  "is_digit c = (CHR ''0'' \<le> c \<and> c \<le> CHR ''9'')"

definition two_digit_frame_name :: "string \<Rightarrow> bool" where
  "two_digit_frame_name n =
     (length n = 12 \<and> take 6 n = ''frame_'' \<and> is_digit (n ! 6) \<and> is_digit (n ! 7)
      \<and> drop 8 n = ''.png'')"

text \<open>The paths of \<open>n\<close> frames saved in \<open>d\<close> from index \<open>i\<close> on.\<close>

definition frame_paths :: "path \<Rightarrow> int \<Rightarrow> nat \<Rightarrow> path list" where
  "frame_paths d i n = map (\<lambda>k. d @ [frame_name (i + int k)]) [0..<n]"

text \<open>Nothing is ever removed from the file system: a later state has the entries of
  an earlier one, in the same order, and its directories are still directories.\<close>

definition extends :: "filesystem \<Rightarrow> filesystem \<Rightarrow> bool" where
  "extends fs fs' = ((\<exists>ks. map fst fs' = map fst fs @ ks) \<and> (\<forall>p. is_dir fs p \<longrightarrow> is_dir fs' p))"







text \<open>A project in which a regular file stands where the frame directory of the single
  \<open>flame\<close> would be created.\<close>

definition blocked_world :: world where
  "blocked_world =
     \<lparr>disk = [([''proj''], Dir), ([''proj'', ''reference.png''], File ''REF''),
              ([''proj'', ''output''], Dir),
              ([''proj'', ''output'', ''singles''], Dir),
              ([''proj'', ''output'', ''singles'', ''flame''], File ''note'')],
      calls = [], out = []\<rparr>"


section \<open>Properties\<close>

subsection \<open>Cost estimate\<close>

text \<open>
  C9.  For a configuration with two singles, one emote, one chain of two steps, one
  journey of three steps and one cycle, the total number of API calls reported by
  \<open>count_animations\<close> is 2 + 1 + 2 + 3 + 1 = 9 and \<open>estimate_cost\<close> is 9 * 0.16 = 1.44.
\<close>

theorem cost_estimate_example:
  assumes "length (singles cfg) = 2" and "length (emotes cfg) = 1"
    and "chains cfg = [(cn, ce)]" and "length (steps ce) = 2"
    and "journeys cfg = [(jn, je)]" and "length (steps je) = 3"
    and "length (cycles cfg) = 1"
  shows "total_api_calls (count_animations cfg) = 2 + 1 + 2 + 3 + 1
     \<and> total_api_calls (count_animations cfg) = 9
     \<and> estimate_cost cfg = 9 * 0.16 \<and> estimate_cost cfg = 1.44"
  using assms by (simp add: count_animations_def estimate_cost_def)

theorem cost_estimate_example_witness:
  "total_api_calls (count_animations example_config) = 9 \<and> estimate_cost example_config = 1.44"
  using cost_estimate_example [of example_config "''rise''"
     "\<lparr>label = None,
       steps = [[(''from'', ''reference''), (''to'', ''flame''), (''prompt'', ''p1'')],
                [(''from'', ''flame''), (''to'', ''wave''), (''prompt'', ''p2'')]]\<rparr>"
     "''trip''"
     "\<lparr>label = Some ''Trip'',
       steps = [[(''prompt'', ''q1'')], [(''prompt'', ''q2'')], [(''prompt'', ''q3'')]]\<rparr>"]
  by (simp add: example_config_def)

subsection \<open>Assembling from an empty frame directory\<close>

text \<open>
  C8.  When the frame directory yields no file matching the frame pattern,
  \<open>frames_to_gif\<close> returns \<open>None\<close> without raising and leaves the world as it was: no
  output file is written.
\<close>

theorem frames_to_gif_empty:
  assumes "glob_frames (disk w) frame_dir = []"
  shows "frames_to_gif env frame_dir output_path upscale duration w = (Inr None, w)"
  using assms by (simp add: frames_to_gif_def list_frames_def)

theorem frames_to_gif_empty_witness:
  "glob_frames (disk empty_dir_world) [''proj'', ''empty''] = []
   \<and> frames_to_gif example_env [''proj'', ''empty''] [''proj'', ''empty.gif''] 512 200 empty_dir_world
       = (Inr None, empty_dir_world)"
proof -
  have h: "glob_frames (disk empty_dir_world) [''proj'', ''empty''] = []"
    by (simp add: glob_frames_def frame_entries_def empty_dir_world_def is_dir_def lookup_def parent_def)
  show ?thesis
    using h frames_to_gif_empty [OF h, of example_env "[''proj'', ''empty.gif'']" 512 200]
    by simp
qed

subsection \<open>Basic facts\<close>

lemma disk_print [simp]: "disk (print e w) = disk w"
  by (simp add: print_def)

lemma calls_print [simp]: "calls (print e w) = calls w"
  by (simp add: print_def)

lemma out_print [simp]: "out (print e w) = out w @ [e]"
  by (simp add: print_def)

lemma matches_frame_name: "matches_frame_pattern (frame_name i)"
  by (simp add: matches_frame_pattern_def frame_name_def)

lemma frame_entries_append: "frame_entries (xs @ ys) d = frame_entries xs d @ frame_entries ys d"
  by (simp add: frame_entries_def)

lemma glob_frame_files: "frame_entries (frame_files d n) d = map fst (frame_files d n)"
  by (simp add: frame_entries_def frame_files_def parent_def matches_frame_name filter_id_conv)

lemma has_frames_frame_files:
  assumes "lookup (pre @ frame_files d n @ post) d = Some Dir"
  shows "has_frames (pre @ frame_files d n @ post) d n"
proof -
  have "n \<le> length (map fst (frame_files d n))" by (simp add: frame_files_def)
  then show ?thesis using assms
    by (simp add: has_frames_def path_exists_def glob_frames_def is_dir_def glob_frame_files
        frame_entries_append)
qed

lemma map_of_frame_files_dir: "map_of (frame_files d n) d = None"
  by (simp add: frame_files_def map_of_eq_None_iff image_iff)

subsection \<open>The skip rule\<close>

text \<open>
  C1.  An item whose frame directory already holds at least the threshold of frame files
  (16 for a single, 32 for a cycle, 16 for each step of a chain or journey) is skipped:
  the pass returns the total it was given, the file system and the list of remote calls
  are unchanged, and the loop goes on with the next item.
\<close>

theorem skip_rule:
  "(has_frames (disk w) (singles_dir cfg @ [name]) 16 \<longrightarrow>
      (\<exists>w'. single_item env cfg (name, entry) (t, w) = (t, w')
         \<and> disk w' = disk w \<and> calls w' = calls w
         \<and> fold (single_item env cfg) ((name, entry) # rest) (t, w)
             = fold (single_item env cfg) rest (t, w')))
   \<and> (has_frames (disk w) (chains_dir cfg @ [name]) (length (steps sq) * 16) \<longrightarrow>
      (\<exists>w'. sequence_item env cfg ''Chain'' (chains_dir cfg) (name, sq) t w = (Inr t, w')
         \<and> disk w' = disk w \<and> calls w' = calls w
         \<and> for_each (sequence_item env cfg ''Chain'' (chains_dir cfg)) ((name, sq) # sqs) t w
             = for_each (sequence_item env cfg ''Chain'' (chains_dir cfg)) sqs t w'))
   \<and> (has_frames (disk w) (journeys_dir cfg @ [name]) (length (steps sq) * 16) \<longrightarrow>
      (\<exists>w'. sequence_item env cfg ''Journey'' (journeys_dir cfg) (name, sq) t w = (Inr t, w')
         \<and> disk w' = disk w \<and> calls w' = calls w
         \<and> for_each (sequence_item env cfg ''Journey'' (journeys_dir cfg)) ((name, sq) # sqs) t w
             = for_each (sequence_item env cfg ''Journey'' (journeys_dir cfg)) sqs t w'))
   \<and> (has_frames (disk w) (cycles_dir cfg @ [name]) 32 \<longrightarrow>
      (\<exists>w'. cycle_item env cfg (name, entry) t w = (Inr t, w')
         \<and> disk w' = disk w \<and> calls w' = calls w
         \<and> for_each (cycle_item env cfg) ((name, entry) # rest) t w
             = for_each (cycle_item env cfg) rest t w'))"
  by (simp add: single_item_def sequence_item_def cycle_item_def)




theorem skip_rule_witness:
  "has_frames (disk complete_world) (singles_dir example_config @ [''flame'']) 16
   \<and> (\<exists>w'. single_item example_env example_config (''flame'', [(''prompt'', ''to flame'')]) (0, complete_world) = (0, w')
         \<and> disk w' = disk complete_world \<and> calls w' = calls complete_world)
   \<and> has_frames (disk complete_world) (chains_dir example_config @ [''rise''])
        (length (steps \<lparr>label = None, steps = [[(''prompt'', ''p1'')], [(''prompt'', ''p2'')]]\<rparr>) * 16)
   \<and> (\<exists>w'. sequence_item example_env example_config ''Chain'' (chains_dir example_config)
              (''rise'', \<lparr>label = None, steps = [[(''prompt'', ''p1'')], [(''prompt'', ''p2'')]]\<rparr>) 0 complete_world = (Inr 0, w')
         \<and> disk w' = disk complete_world \<and> calls w' = calls complete_world)
   \<and> has_frames (disk complete_world) (journeys_dir example_config @ [''trip''])
        (length (steps \<lparr>label = None, steps = [[(''prompt'', ''q1'')], [(''prompt'', ''q2'')], [(''prompt'', ''q3'')]]\<rparr>) * 16)
   \<and> (\<exists>w'. sequence_item example_env example_config ''Journey'' (journeys_dir example_config)
              (''trip'', \<lparr>label = None, steps = [[(''prompt'', ''q1'')], [(''prompt'', ''q2'')], [(''prompt'', ''q3'')]]\<rparr>) 0 complete_world = (Inr 0, w')
         \<and> disk w' = disk complete_world \<and> calls w' = calls complete_world)
   \<and> has_frames (disk complete_world) (cycles_dir example_config @ [''loop'']) 32
   \<and> (\<exists>w'. cycle_item example_env example_config (''loop'', [(''shape'', ''flame'')]) 0 complete_world = (Inr 0, w')
         \<and> disk w' = disk complete_world \<and> calls w' = calls complete_world)"
proof -
  let ?f1 = "frame_files [''proj'', ''output'', ''singles'', ''flame''] 16"
  let ?f2 = "frame_files [''proj'', ''output'', ''chains'', ''rise''] 32"
  let ?f3 = "frame_files [''proj'', ''output'', ''journeys'', ''trip''] 48"
  let ?f4 = "frame_files [''proj'', ''output'', ''cycles'', ''loop''] 32"
  have h1: "has_frames (disk complete_world) (singles_dir example_config @ [''flame'']) 16"
    using has_frames_frame_files [of complete_base "[''proj'', ''output'', ''singles'', ''flame'']" 16 "?f2 @ ?f3 @ ?f4"]
    by (simp add: complete_world_def singles_dir_def example_config_def lookup_def complete_base_def)
  have h2: "has_frames (disk complete_world) (chains_dir example_config @ [''rise''])
        (length (steps \<lparr>label = None, steps = [[(''prompt'', ''p1'')], [(''prompt'', ''p2'')]]\<rparr>) * 16)"
    using has_frames_frame_files [of "complete_base @ ?f1" "[''proj'', ''output'', ''chains'', ''rise'']" 32 "?f3 @ ?f4"]
    by (simp add: complete_world_def chains_dir_def example_config_def lookup_def complete_base_def)
  have h3: "has_frames (disk complete_world) (journeys_dir example_config @ [''trip''])
        (length (steps \<lparr>label = None, steps = [[(''prompt'', ''q1'')], [(''prompt'', ''q2'')], [(''prompt'', ''q3'')]]\<rparr>) * 16)"
    using has_frames_frame_files [of "complete_base @ ?f1 @ ?f2" "[''proj'', ''output'', ''journeys'', ''trip'']" 48 "?f4"]
    by (simp add: complete_world_def journeys_dir_def example_config_def lookup_def complete_base_def)
  have h4: "has_frames (disk complete_world) (cycles_dir example_config @ [''loop'']) 32"
    using has_frames_frame_files [of "complete_base @ ?f1 @ ?f2 @ ?f3" "[''proj'', ''output'', ''cycles'', ''loop'']" 32 "[]"]
    by (simp add: complete_world_def cycles_dir_def example_config_def lookup_def complete_base_def)
  note a = skip_rule [of complete_world example_config "''flame''" example_env "[(''prompt'', ''to flame'')]" 0 "[]"
      "\<lparr>label = None, steps = []\<rparr>" "[]"]
  note b = skip_rule [of complete_world example_config "''rise''" example_env "[]" 0 "[]"
      "\<lparr>label = None, steps = [[(''prompt'', ''p1'')], [(''prompt'', ''p2'')]]\<rparr>" "[]"]
  note c = skip_rule [of complete_world example_config "''trip''" example_env "[]" 0 "[]"
      "\<lparr>label = None, steps = [[(''prompt'', ''q1'')], [(''prompt'', ''q2'')], [(''prompt'', ''q3'')]]\<rparr>" "[]"]
  note d = skip_rule [of complete_world example_config "''loop''" example_env "[(''shape'', ''flame'')]" 0 "[]"
      "\<lparr>label = None, steps = []\<rparr>" "[]"]
  have c1: "\<exists>w'. single_item example_env example_config (''flame'', [(''prompt'', ''to flame'')]) (0, complete_world) = (0, w')
         \<and> disk w' = disk complete_world \<and> calls w' = calls complete_world"
    using a h1 by blast
  have c2: "\<exists>w'. sequence_item example_env example_config ''Chain'' (chains_dir example_config)
              (''rise'', \<lparr>label = None, steps = [[(''prompt'', ''p1'')], [(''prompt'', ''p2'')]]\<rparr>) 0 complete_world = (Inr 0, w')
         \<and> disk w' = disk complete_world \<and> calls w' = calls complete_world"
    using b h2 by blast
  have c3: "\<exists>w'. sequence_item example_env example_config ''Journey'' (journeys_dir example_config)
              (''trip'', \<lparr>label = None, steps = [[(''prompt'', ''q1'')], [(''prompt'', ''q2'')], [(''prompt'', ''q3'')]]\<rparr>) 0 complete_world = (Inr 0, w')
         \<and> disk w' = disk complete_world \<and> calls w' = calls complete_world"
    using c h3 by blast
  have c4: "\<exists>w'. cycle_item example_env example_config (''loop'', [(''shape'', ''flame'')]) 0 complete_world = (Inr 0, w')
         \<and> disk w' = disk complete_world \<and> calls w' = calls complete_world"
    using d h4 by blast
  show ?thesis using h1 h2 h3 h4 c1 c2 c3 c4 by blast
qed

subsection \<open>The reference of a sequence step\<close>

lemma split_slash_plain: "CHR ''/'' \<notin> set s \<Longrightarrow> split_slash s = [s]"
  by (induction s) auto

lemma path_parts_plain: "CHR ''/'' \<notin> set s \<Longrightarrow> s \<noteq> [] \<Longrightarrow> s \<noteq> ''.'' \<Longrightarrow> path_parts s = [s]"
  by (simp add: path_parts_def split_slash_plain)

lemma join_path_plain:
  assumes "CHR ''/'' \<notin> set s" and "s \<noteq> []" and "s \<noteq> ''.''"
  shows "join_path base s = base @ [s]"
proof -
  have "hd s \<noteq> CHR ''/''" using assms(1,2) by (cases s) auto
  then show ?thesis using assms by (simp add: join_path_def path_parts_plain)
qed

lemma locate_plain: "''..'' \<notin> set p \<Longrightarrow> locate fs cur p = Some (cur @ p)"
  by (induction p arbitrary: cur) auto

lemma exists_at_plain: "''..'' \<notin> set p \<Longrightarrow> exists_at fs p = path_exists fs p"
  by (simp add: exists_at_def locate_plain)

lemma read_at_plain: "''..'' \<notin> set p \<Longrightarrow> read_at fs p = read_bytes fs p"
  by (simp add: read_at_def locate_plain)

text \<open>
  C3.  The resolver returns the project reference image when \<open>from\<close> is missing, empty
  or one of the aliases \<open>liquid\<close>, \<open>reference\<close>, \<open>base\<close>, whatever the earlier steps
  produced.  Otherwise it returns the frame-15 file of the single named by \<open>from\<close> (the
  path \<open>singles_dir / from / frame_15.png\<close> as \<open>pathlib\<close> joins it) when that file
  exists; otherwise, when earlier steps produced frames, it writes the decoded last frame
  to a temporary file and returns that file; otherwise it returns the project reference
  image.  For a \<open>from\<close> that is a plain name the file is \<open>frame_15.png\<close> in the directory
  of that name below the singles directory.
\<close>

theorem resolve_priority:
  "((map_of step ''from'' = None \<or> map_of step ''from'' = Some []
       \<or> map_of step ''from'' = Some ''liquid'' \<or> map_of step ''from'' = Some ''reference''
       \<or> map_of step ''from'' = Some ''base'') \<longrightarrow>
      resolve_step_reference env cfg step previous_frames w = (Inr (reference cfg), w))
   \<and> (map_of step ''from'' = Some s \<and> s \<noteq> [] \<and> s \<notin> {''liquid'', ''reference'', ''base''} \<longrightarrow>
       (exists_at (disk w) (join_path (singles_dir cfg) s @ [''frame_15.png'']) \<longrightarrow>
          resolve_step_reference env cfg step previous_frames w
            = (Inr (join_path (singles_dir cfg) s @ [''frame_15.png'']), w))
     \<and> (\<not> exists_at (disk w) (join_path (singles_dir cfg) s @ [''frame_15.png''])
          \<and> previous_frames \<noteq> []
          \<and> map_of (last previous_frames) ''base64'' = Some payload
          \<and> b64decode env payload = Some b
          \<and> \<not> is_dir (disk w) (mktemp env (disk w))
          \<and> is_dir (disk w) (parent (mktemp env (disk w))) \<longrightarrow>
          (\<exists>w'. resolve_step_reference env cfg step previous_frames w = (Inr (mktemp env (disk w)), w')
             \<and> lookup (disk w') (mktemp env (disk w)) = Some (File b)
             \<and> calls w' = calls w))
     \<and> (\<not> exists_at (disk w) (join_path (singles_dir cfg) s @ [''frame_15.png''])
          \<and> previous_frames = [] \<longrightarrow>
          resolve_step_reference env cfg step previous_frames w = (Inr (reference cfg), w)))
   \<and> (CHR ''/'' \<notin> set s \<and> s \<noteq> [] \<and> s \<noteq> ''.'' \<and> s \<noteq> ''..'' \<and> ''..'' \<notin> set (singles_dir cfg) \<longrightarrow>
        join_path (singles_dir cfg) s @ [''frame_15.png''] = singles_dir cfg @ [s, ''frame_15.png'']
        \<and> exists_at (disk w) (join_path (singles_dir cfg) s @ [''frame_15.png''])
            = path_exists (disk w) (singles_dir cfg @ [s, ''frame_15.png'']))"
proof -
  have plain: "join_path (singles_dir cfg) s @ [''frame_15.png''] = singles_dir cfg @ [s, ''frame_15.png'']
        \<and> exists_at (disk w) (join_path (singles_dir cfg) s @ [''frame_15.png''])
            = path_exists (disk w) (singles_dir cfg @ [s, ''frame_15.png''])"
    if "CHR ''/'' \<notin> set s \<and> s \<noteq> [] \<and> s \<noteq> ''.'' \<and> s \<noteq> ''..'' \<and> ''..'' \<notin> set (singles_dir cfg)"
  proof -
    have j: "join_path (singles_dir cfg) s = singles_dir cfg @ [s]"
      using that by (simp add: join_path_plain)
    have "''..'' \<notin> set (singles_dir cfg @ [s, ''frame_15.png''])" using that by auto
    then show ?thesis using j by (simp add: exists_at_plain)
  qed
  have main: "((map_of step ''from'' = None \<or> map_of step ''from'' = Some []
       \<or> map_of step ''from'' = Some ''liquid'' \<or> map_of step ''from'' = Some ''reference''
       \<or> map_of step ''from'' = Some ''base'') \<longrightarrow>
      resolve_step_reference env cfg step previous_frames w = (Inr (reference cfg), w))
   \<and> (map_of step ''from'' = Some s \<and> s \<noteq> [] \<and> s \<notin> {''liquid'', ''reference'', ''base''} \<longrightarrow>
       (exists_at (disk w) (join_path (singles_dir cfg) s @ [''frame_15.png'']) \<longrightarrow>
          resolve_step_reference env cfg step previous_frames w
            = (Inr (join_path (singles_dir cfg) s @ [''frame_15.png'']), w))
     \<and> (\<not> exists_at (disk w) (join_path (singles_dir cfg) s @ [''frame_15.png''])
          \<and> previous_frames \<noteq> []
          \<and> map_of (last previous_frames) ''base64'' = Some payload
          \<and> b64decode env payload = Some b
          \<and> \<not> is_dir (disk w) (mktemp env (disk w))
          \<and> is_dir (disk w) (parent (mktemp env (disk w))) \<longrightarrow>
          (\<exists>w'. resolve_step_reference env cfg step previous_frames w = (Inr (mktemp env (disk w)), w')
             \<and> lookup (disk w') (mktemp env (disk w)) = Some (File b)
             \<and> calls w' = calls w))
     \<and> (\<not> exists_at (disk w) (join_path (singles_dir cfg) s @ [''frame_15.png''])
          \<and> previous_frames = [] \<longrightarrow>
          resolve_step_reference env cfg step previous_frames w = (Inr (reference cfg), w)))"
    by (auto simp add: resolve_step_reference_def open_wb_def write_bytes_def lookup_def Let_def
        update_conv' is_dir_def)
  show ?thesis using main plain by blast
qed


theorem resolve_priority_witness:
  "resolve_step_reference example_env example_config [(''from'', ''reference''), (''prompt'', ''p'')]
      [[(''base64'', ''XYZ'')]] small_world = (Inr [''proj'', ''reference.png''], small_world)
   \<and> resolve_step_reference example_env example_config [(''from'', ''flame''), (''prompt'', ''p'')]
      [[(''base64'', ''XYZ'')]] small_world
      = (Inr [''proj'', ''output'', ''singles'', ''flame'', ''frame_15.png''], small_world)
   \<and> resolve_step_reference example_env example_config [(''from'', ''./flame/''), (''prompt'', ''p'')]
      [[(''base64'', ''XYZ'')]] small_world
      = (Inr [''proj'', ''output'', ''singles'', ''flame'', ''frame_15.png''], small_world)
   \<and> resolve_step_reference example_env example_config [(''from'', ''wave/../flame''), (''prompt'', ''p'')]
      [[(''base64'', ''XYZ'')]] small_world
      = (Inr [''proj'', ''output'', ''singles'', ''wave'', ''..'', ''flame'', ''frame_15.png''], small_world)
   \<and> (\<exists>w'. resolve_step_reference example_env example_config [(''from'', ''ghost''), (''prompt'', ''p'')]
      [[(''base64'', ''ABC'')], [(''base64'', ''XYZ'')]] small_world = (Inr [''tmp'', ''tmpa1b2c3.png''], w')
      \<and> lookup (disk w') [''tmp'', ''tmpa1b2c3.png''] = Some (File ''XYZ''))
   \<and> resolve_step_reference example_env example_config [(''from'', ''ghost''), (''prompt'', ''p'')]
      [] small_world = (Inr [''proj'', ''reference.png''], small_world)"
proof -
  have rf: "reference example_config = [''proj'', ''reference.png'']"
    and sd: "singles_dir example_config = [''proj'', ''output'', ''singles'']"
    by (simp_all add: example_config_def singles_dir_def)
  have j1: "join_path (singles_dir example_config) ''flame'' @ [''frame_15.png'']
      = [''proj'', ''output'', ''singles'', ''flame'', ''frame_15.png'']"
    by code_simp
  have j2: "join_path (singles_dir example_config) ''./flame/'' @ [''frame_15.png'']
      = [''proj'', ''output'', ''singles'', ''flame'', ''frame_15.png'']"
    by code_simp
  have j3: "join_path (singles_dir example_config) ''wave/../flame'' @ [''frame_15.png'']
      = [''proj'', ''output'', ''singles'', ''wave'', ''..'', ''flame'', ''frame_15.png'']"
    by code_simp
  have j4: "join_path (singles_dir example_config) ''ghost'' @ [''frame_15.png'']
      = [''proj'', ''output'', ''singles'', ''ghost'', ''frame_15.png'']"
    by code_simp
  have ex1: "exists_at (disk small_world) [''proj'', ''output'', ''singles'', ''flame'', ''frame_15.png'']"
    by code_simp
  have ex3: "exists_at (disk small_world)
      [''proj'', ''output'', ''singles'', ''wave'', ''..'', ''flame'', ''frame_15.png'']"
    by code_simp
  have nex: "\<not> exists_at (disk small_world) [''proj'', ''output'', ''singles'', ''ghost'', ''frame_15.png'']"
    by code_simp
  have tmp: "mktemp example_env (disk small_world) = [''tmp'', ''tmpa1b2c3.png'']"
    by (simp add: example_env_def)
  have t1: "\<not> is_dir (disk small_world) [''tmp'', ''tmpa1b2c3.png'']"
    by (simp add: small_world_def is_dir_def lookup_def)
  have t2: "is_dir (disk small_world) (parent [''tmp'', ''tmpa1b2c3.png''])"
    by (simp add: small_world_def is_dir_def lookup_def parent_def)
  have dec: "b64decode example_env ''XYZ'' = Some ''XYZ''"
    by (simp add: example_env_def)
  note a = resolve_priority [of "[(''from'', ''reference''), (''prompt'', ''p'')]" example_env
      example_config "[[(''base64'', ''XYZ'')]]" small_world "''reference''" "''XYZ''" "''XYZ''"]
  note b = resolve_priority [of "[(''from'', ''flame''), (''prompt'', ''p'')]" example_env
      example_config "[[(''base64'', ''XYZ'')]]" small_world "''flame''" "''XYZ''" "''XYZ''"]
  note b2 = resolve_priority [of "[(''from'', ''./flame/''), (''prompt'', ''p'')]" example_env
      example_config "[[(''base64'', ''XYZ'')]]" small_world "''./flame/''" "''XYZ''" "''XYZ''"]
  note b3 = resolve_priority [of "[(''from'', ''wave/../flame''), (''prompt'', ''p'')]" example_env
      example_config "[[(''base64'', ''XYZ'')]]" small_world "''wave/../flame''" "''XYZ''" "''XYZ''"]
  note c = resolve_priority [of "[(''from'', ''ghost''), (''prompt'', ''p'')]" example_env
      example_config "[[(''base64'', ''ABC'')], [(''base64'', ''XYZ'')]]" small_world "''ghost''" "''XYZ''" "''XYZ''"]
  note d = resolve_priority [of "[(''from'', ''ghost''), (''prompt'', ''p'')]" example_env
      example_config "[]" small_world "''ghost''" "''XYZ''" "''XYZ''"]
  have c1: "resolve_step_reference example_env example_config [(''from'', ''reference''), (''prompt'', ''p'')]
      [[(''base64'', ''XYZ'')]] small_world = (Inr [''proj'', ''reference.png''], small_world)"
    using a rf by simp
  have c2: "resolve_step_reference example_env example_config [(''from'', ''flame''), (''prompt'', ''p'')]
      [[(''base64'', ''XYZ'')]] small_world
      = (Inr [''proj'', ''output'', ''singles'', ''flame'', ''frame_15.png''], small_world)"
    using b ex1 j1 by simp
  have c2b: "resolve_step_reference example_env example_config [(''from'', ''./flame/''), (''prompt'', ''p'')]
      [[(''base64'', ''XYZ'')]] small_world
      = (Inr [''proj'', ''output'', ''singles'', ''flame'', ''frame_15.png''], small_world)"
    using b2 ex1 j2 by simp
  have c2c: "resolve_step_reference example_env example_config [(''from'', ''wave/../flame''), (''prompt'', ''p'')]
      [[(''base64'', ''XYZ'')]] small_world
      = (Inr [''proj'', ''output'', ''singles'', ''wave'', ''..'', ''flame'', ''frame_15.png''], small_world)"
    using b3 ex3 j3 by simp
  have c3: "\<exists>w'. resolve_step_reference example_env example_config [(''from'', ''ghost''), (''prompt'', ''p'')]
      [[(''base64'', ''ABC'')], [(''base64'', ''XYZ'')]] small_world = (Inr [''tmp'', ''tmpa1b2c3.png''], w')
      \<and> lookup (disk w') [''tmp'', ''tmpa1b2c3.png''] = Some (File ''XYZ'')"
    using c nex j4 tmp t1 t2 dec by auto
  have c4: "resolve_step_reference example_env example_config [(''from'', ''ghost''), (''prompt'', ''p'')]
      [] small_world = (Inr [''proj'', ''reference.png''], small_world)"
    using d nex j4 rf by simp
  show ?thesis using c1 c2 c2b c2c c3 c4 by blast
qed

subsection \<open>The static fallback\<close>

lemma lookup_update:
  "lookup (AList.update p v fs) q = (if q = [] then Some Dir else if q = p then Some v else lookup fs q)"
  by (simp add: lookup_def update_conv')

lemma save_encoded_result:
  assumes "save_encoded data output_path w = (Inr r, w')"
  shows "r = Some output_path \<and> calls w' = calls w \<and> out w' = out w
     \<and> (\<exists>b. data = Some b \<and> lookup (disk w') output_path = Some (File b))"
  using assms
  by (auto simp add: save_encoded_def open_wb_def write_bytes_def is_dir_def lookup_def update_conv'
      split: sum.splits option.splits if_splits)

lemma sorted_le_last:
  fixes xs :: "'a::linorder list"
  shows "sorted xs \<Longrightarrow> x \<in> set xs \<Longrightarrow> x \<le> last xs"
  by (induction xs) auto

lemma last_sort_greatest:
  fixes xs :: "'a::linorder list"
  assumes "xs \<noteq> []"
  shows "last (sort xs) \<in> set xs \<and> (\<forall>g\<in>set xs. g \<le> last (sort xs))"
proof -
  have ne: "sort xs \<noteq> []" using assms by (metis length_sort length_0_conv)
  have "last (sort xs) \<in> set xs" using last_in_set[OF ne] by simp
  moreover have "g \<le> last (sort xs)" if "g \<in> set xs" for g
    using sorted_le_last[of "sort xs" g] that by simp
  ultimately show ?thesis by blast
qed

lemma frame_name_15: "frame_name 15 = ''frame_15.png''"
  by code_simp

text \<open>
  C7.  \<open>create_static_fallback\<close> takes the frame with the requested index when that file
  exists; when it does not, it takes the last frame of the directory in the order of the
  paths; it returns \<open>None\<close> exactly when neither exists.  Whenever it returns a path, the
  file written there is the encoded upscaled image of the frame it took.
\<close>

theorem static_fallback_selection:
  "(path_exists (disk w) (d @ [frame_name idx]) \<longrightarrow>
      select_static_frame (disk w) d idx = Some (d @ [frame_name idx]))
   \<and> (\<not> path_exists (disk w) (d @ [frame_name idx]) \<and> glob_frames (disk w) d \<noteq> [] \<longrightarrow>
      (\<exists>f. select_static_frame (disk w) d idx = Some f
         \<and> f \<in> set (glob_frames (disk w) d) \<and> (\<forall>g\<in>set (glob_frames (disk w) d). g \<le> f)))
   \<and> (fst (create_static_fallback env d outp u idx w) = Inr None
        \<longleftrightarrow> \<not> path_exists (disk w) (d @ [frame_name idx]) \<and> glob_frames (disk w) d = [])
   \<and> (select_static_frame (disk w) d idx = Some f
        \<and> create_static_fallback env d outp u idx w = (Inr r, w') \<longrightarrow>
        r = Some outp
        \<and> (\<exists>b img up data. lookup (disk w) f = Some (File b) \<and> image_open env b = Some img
              \<and> image_resize env u img = Some up \<and> png_encode env up = Some data
              \<and> lookup (disk w') outp = Some (File data)))
   \<and> (select_static_frame (disk w) d idx = Some f
        \<and> lookup (disk w) f = Some (File b) \<and> image_open env b = Some img
        \<and> image_resize env u img = Some up \<longrightarrow>
        create_static_fallback env d outp u idx w = save_encoded (png_encode env up) outp w)"
proof (intro conjI impI)
  show "select_static_frame (disk w) d idx = Some (d @ [frame_name idx])"
    if "path_exists (disk w) (d @ [frame_name idx])"
    using that by (simp add: select_static_frame_def)
next
  assume a: "\<not> path_exists (disk w) (d @ [frame_name idx]) \<and> glob_frames (disk w) d \<noteq> []"
  then have ne: "list_frames (disk w) d \<noteq> []"
    by (metis list_frames_def length_sort length_0_conv)
  have "select_static_frame (disk w) d idx = Some (last (sort (glob_frames (disk w) d)))"
    using a ne by (simp add: select_static_frame_def list_frames_def)
  then show "\<exists>f. select_static_frame (disk w) d idx = Some f
         \<and> f \<in> set (glob_frames (disk w) d) \<and> (\<forall>g\<in>set (glob_frames (disk w) d). g \<le> f)"
    using last_sort_greatest[of "glob_frames (disk w) d"] a by simp
next
  have se: "fst (save_encoded data outp w) \<noteq> Inr None" for data
  proof (cases "save_encoded data outp w")
    case (Pair x y)
    then show ?thesis using save_encoded_result[of data outp w] by (cases x) auto
  qed
  have l: "list_frames (disk w) d = [] \<longleftrightarrow> glob_frames (disk w) d = []"
    by (metis list_frames_def length_sort length_0_conv)
  show "fst (create_static_fallback env d outp u idx w) = Inr None
        \<longleftrightarrow> \<not> path_exists (disk w) (d @ [frame_name idx]) \<and> glob_frames (disk w) d = []"
    using se l
    by (auto simp add: create_static_fallback_def select_static_frame_def Let_def
        split: option.splits sum.splits if_splits)
next
  assume a: "select_static_frame (disk w) d idx = Some f
        \<and> create_static_fallback env d outp u idx w = (Inr r, w')"
  then show "r = Some outp"
    by (auto simp add: create_static_fallback_def split: option.splits sum.splits dest: save_encoded_result)
  from a show "\<exists>b img up data. lookup (disk w) f = Some (File b) \<and> image_open env b = Some img
              \<and> image_resize env u img = Some up \<and> png_encode env up = Some data
              \<and> lookup (disk w') outp = Some (File data)"
    by (auto simp add: create_static_fallback_def open_image_def read_bytes_def
          split: option.splits sum.splits node.splits dest: save_encoded_result)
next
  show "create_static_fallback env d outp u idx w = save_encoded (png_encode env up) outp w"
    if "select_static_frame (disk w) d idx = Some f
        \<and> lookup (disk w) f = Some (File b) \<and> image_open env b = Some img
        \<and> image_resize env u img = Some up"
    using that by (simp add: create_static_fallback_def open_image_def read_bytes_def)
qed


theorem static_fallback_selection_witness:
  "select_static_frame (disk small_world) [''proj'', ''output'', ''singles'', ''flame''] 15
     = Some [''proj'', ''output'', ''singles'', ''flame'', ''frame_15.png'']
   \<and> select_static_frame (disk small_world) [''proj'', ''output'', ''singles'', ''wave''] 15
     = Some [''proj'', ''output'', ''singles'', ''wave'', ''frame_03.png'']
   \<and> fst (create_static_fallback example_env [''proj'', ''output'', ''singles'', ''wave'']
        [''proj'', ''output'', ''static'', ''wave.png''] 512 15 small_world)
      = Inr (Some [''proj'', ''output'', ''static'', ''wave.png''])
   \<and> lookup (disk (snd (create_static_fallback example_env [''proj'', ''output'', ''singles'', ''wave'']
        [''proj'', ''output'', ''static'', ''wave.png''] 512 15 small_world)))
        [''proj'', ''output'', ''static'', ''wave.png''] = Some (File ''W3'')
   \<and> fst (create_static_fallback example_env [''proj'', ''empty'']
        [''proj'', ''output'', ''static'', ''none.png''] 512 15 empty_dir_world) = Inr None"
proof -
  let ?flame = "[''proj'', ''output'', ''singles'', ''flame'']"
  let ?wave = "[''proj'', ''output'', ''singles'', ''wave'']"
  let ?out = "[''proj'', ''output'', ''static'', ''wave.png'']"
  let ?r = "create_static_fallback example_env ?wave ?out 512 15 small_world"
  have e1: "path_exists (disk small_world) (?flame @ [frame_name 15])"
    by (simp add: frame_name_15 small_world_def path_exists_def lookup_def)
  have e2: "\<not> path_exists (disk small_world) (?wave @ [frame_name 15])"
    by (simp add: frame_name_15 small_world_def path_exists_def lookup_def)
  have g: "list_frames (disk small_world) ?wave
      = [?wave @ [''frame_00.png''], ?wave @ [''frame_01.png''], ?wave @ [''frame_02.png''],
         ?wave @ [''frame_03.png'']]"
    by code_simp
  have s2: "select_static_frame (disk small_world) ?wave 15 = Some (?wave @ [''frame_03.png''])"
    using e2 g by (simp add: select_static_frame_def)
  have ok: "fst ?r = Inr (Some ?out)"
    unfolding create_static_fallback_def s2
    by (simp add: open_image_def read_bytes_def small_world_def
        lookup_def example_env_def save_encoded_def mkdir_parents_def open_wb_def is_dir_def
        parent_def write_bytes_def)
  have e3: "\<not> path_exists (disk empty_dir_world) ([''proj'', ''empty''] @ [frame_name 15])"
    by (simp add: frame_name_15 empty_dir_world_def path_exists_def lookup_def)
  have e4: "glob_frames (disk empty_dir_world) [''proj'', ''empty''] = []"
    by (simp add: glob_frames_def frame_entries_def empty_dir_world_def is_dir_def lookup_def parent_def)
  note a = conjunct1 [OF static_fallback_selection [of small_world ?flame 15 example_env ?out 512
      "?flame @ [''frame_15.png'']" "Some ?out" small_world "''F15''" "''F15''" "''F15''"]]
  note b = static_fallback_selection [of small_world ?wave 15 example_env ?out 512
      "?wave @ [''frame_03.png'']" "Some ?out" "snd ?r" "''W3''" "''W3''" "''W3''"]
  note c = static_fallback_selection [of empty_dir_world "[''proj'', ''empty'']" 15 example_env
      "[''proj'', ''output'', ''static'', ''none.png'']" 512 "[]" None empty_dir_world "[]" "[]" "[]"]
  have c1: "select_static_frame (disk small_world) ?flame 15 = Some (?flame @ [''frame_15.png''])"
    using a e1 by (simp add: frame_name_15)
  have eq: "?r = (Inr (Some ?out), snd ?r)"
    using ok by (metis prod.collapse)
  obtain b0 img up data where d: "lookup (disk small_world) (?wave @ [''frame_03.png'']) = Some (File b0)"
      "image_open example_env b0 = Some img" "image_resize example_env 512 img = Some up"
      "png_encode example_env up = Some data" "lookup (disk (snd ?r)) ?out = Some (File data)"
    using b s2 eq by blast
  have "b0 = ''W3''" using d(1) by (simp add: small_world_def lookup_def)
  then have "data = ''W3''" using d(2,3,4) by (simp add: example_env_def)
  then have c4: "lookup (disk (snd ?r)) ?out = Some (File ''W3'')" using d(5) by simp
  have c5: "fst (create_static_fallback example_env [''proj'', ''empty'']
        [''proj'', ''output'', ''static'', ''none.png''] 512 15 empty_dir_world) = Inr None"
    using c e3 e4 by blast
  show ?thesis using c1 s2 ok c4 c5 by simp
qed

subsection \<open>Saving frames and listing them\<close>

lemma of_char_digit: "d < 10 \<Longrightarrow> (of_char (digit_char d) :: nat) = 48 + d"
  by (simp add: digit_char_def)

lemma digit_char_less: "a < b \<Longrightarrow> b < 10 \<Longrightarrow> digit_char a < digit_char b"
  by (simp add: less_char_def of_char_digit)

lemma digit_char_inj: "a < 10 \<Longrightarrow> b < 10 \<Longrightarrow> digit_char a = digit_char b \<Longrightarrow> a = b"
  by (metis of_char_digit add_left_cancel)

lemma is_digit_digit_char: "d < 10 \<Longrightarrow> is_digit (digit_char d)"
  by (simp add: is_digit_def less_eq_char_def of_char_digit)

lemma fmt_02d_small:
  assumes "0 \<le> i" and "i < 100"
  shows "fmt_02d i = [digit_char (nat i div 10), digit_char (nat i mod 10)]"
proof (cases "i < 10")
  case True
  have "digit_char 0 = CHR ''0''" by code_simp
  with True assms show ?thesis
    by (simp add: fmt_02d_def str_nat.simps [of "nat i"])
next
  case False
  then have "nat i div 10 < 10" using assms by simp
  with False assms show ?thesis
    by (simp add: fmt_02d_def str_nat.simps [of "nat i"] str_nat.simps [of "nat i div 10"])
qed

lemma frame_name_small:
  assumes "0 \<le> i" and "i < 100"
  shows "frame_name i = ''frame_'' @ [digit_char (nat i div 10), digit_char (nat i mod 10)] @ ''.png''"
  using assms by (simp add: frame_name_def fmt_02d_small)

lemma frame_name_two_digit: "0 \<le> i \<Longrightarrow> i < 100 \<Longrightarrow> two_digit_frame_name (frame_name i)"
  by (simp add: frame_name_small two_digit_frame_name_def is_digit_digit_char)

lemma div_mod_less:
  fixes a b :: nat
  assumes "a < b"
  shows "a div 10 < b div 10 \<or> (a div 10 = b div 10 \<and> a mod 10 < b mod 10)"
proof -
  define q1 r1 q2 r2 where "q1 = a div 10" and "r1 = a mod 10" and "q2 = b div 10" and "r2 = b mod 10"
  have le: "q1 \<le> q2" using assms by (simp add: q1_def q2_def div_le_mono)
  have a: "a = 10 * q1 + r1" and b: "b = 10 * q2 + r2"
    by (simp_all add: q1_def r1_def q2_def r2_def)
  have "q1 < q2 \<or> (q1 = q2 \<and> r1 < r2)"
  proof (cases "q1 = q2")
    case True
    then show ?thesis using assms a b by simp
  next
    case False
    then show ?thesis using le by simp
  qed
  then show ?thesis by (simp add: q1_def r1_def q2_def r2_def)
qed

lemma frame_name_less:
  assumes "0 \<le> i" and "i < j" and "j < 100"
  shows "frame_name i < frame_name j"
proof -
  let ?a = "nat i" and ?b = "nat j"
  have ab: "?a < ?b" "?b < 100" using assms by auto
  then have "?a div 10 < ?b div 10 \<or> (?a div 10 = ?b div 10 \<and> ?a mod 10 < ?b mod 10)"
    using div_mod_less by blast
  moreover have "?b div 10 < 10" using ab by simp
  ultimately have "[digit_char (?a div 10), digit_char (?a mod 10)]
      < [digit_char (?b div 10), digit_char (?b mod 10)]"
    by (auto simp add: digit_char_less)
  then show ?thesis using assms
    by (simp add: frame_name_small)
qed

lemma path_append_less: "(a::string) < b \<Longrightarrow> d @ [a] < d @ [b]"
  by (induction d) auto

lemma frame_paths_Nil [simp]: "frame_paths d i 0 = []"
  by (simp add: frame_paths_def)

lemma frame_paths_Suc: "frame_paths d i (Suc n) = (d @ [frame_name i]) # frame_paths d (i + 1) n"
proof -
  have u: "[0..<Suc n] = 0 # map Suc [0..<n]"
    by (simp add: upt_conv_Cons map_Suc_upt del: upt_Suc)
  have e: "i + int (Suc k) = i + 1 + int k" for k by simp
  show ?thesis
    unfolding frame_paths_def u by (simp add: comp_def e del: upt_Suc of_nat_Suc)
qed

lemma length_frame_paths [simp]: "length (frame_paths d i n) = n"
  by (simp add: frame_paths_def)

lemma nth_frame_paths: "k < n \<Longrightarrow> frame_paths d i n ! k = d @ [frame_name (i + int k)]"
  by (simp add: frame_paths_def)

lemma set_frame_paths: "set (frame_paths d i n) = (\<lambda>k. d @ [frame_name (i + int k)]) ` {0..<n}"
  by (simp add: frame_paths_def)

lemma frame_name_neq:
  assumes "0 \<le> i" and "i < j" and "j < 100"
  shows "frame_name i \<noteq> frame_name j"
  using frame_name_less [OF assms] by simp

lemma first_not_in_rest:
  assumes "0 \<le> i" and "i + 1 + int n \<le> 100"
  shows "d @ [frame_name i] \<notin> set (frame_paths d (i + 1) n)"
proof
  assume "d @ [frame_name i] \<in> set (frame_paths d (i + 1) n)"
  then obtain k where k: "k < n" "frame_name i = frame_name (i + 1 + int k)"
    by (auto simp add: set_frame_paths)
  have "frame_name i \<noteq> frame_name (i + 1 + int k)"
    using assms k(1) by (intro frame_name_neq) auto
  with k(2) show False by simp
qed

lemma lookup_append_dir:
  "lookup (fs @ [(q, Dir)]) p
     = (case lookup fs p of Some v \<Rightarrow> Some v | None \<Rightarrow> if p = q then Some Dir else None)"
  by (simp add: lookup_def map_add_def split: option.splits)

lemma mkdirs_ok:
  assumes "\<forall>q\<in>set qs. \<forall>b. lookup fs q \<noteq> Some (File b)"
  shows "\<exists>fs1 ks. mkdirs fs qs = Inr fs1 \<and> map fst fs1 = map fst fs @ ks \<and> set ks \<subseteq> set qs
           \<and> (\<forall>p. lookup fs p \<noteq> None \<longrightarrow> lookup fs1 p = lookup fs p)
           \<and> (\<forall>q\<in>set qs. is_dir fs1 q)"
  using assms
proof (induction qs arbitrary: fs)
  case Nil
  then show ?case by simp
next
  case (Cons q qs)
  show ?case
  proof (cases "lookup fs q")
    case None
    let ?fs = "fs @ [(q, Dir)]"
    have "\<forall>q'\<in>set qs. \<forall>b. lookup ?fs q' \<noteq> Some (File b)"
      using Cons.prems by (auto simp add: lookup_append_dir split: option.splits)
    from Cons.IH [OF this] obtain fs1 ks where r: "mkdirs ?fs qs = Inr fs1"
      "map fst fs1 = map fst ?fs @ ks" "set ks \<subseteq> set qs"
      "\<forall>p. lookup ?fs p \<noteq> None \<longrightarrow> lookup fs1 p = lookup ?fs p" "\<forall>q\<in>set qs. is_dir fs1 q"
      by blast
    have q: "lookup ?fs q = Some Dir" using None by (simp add: lookup_append_dir)
    have "mkdirs fs (q # qs) = Inr fs1" using None r(1) by simp
    moreover have "map fst fs1 = map fst fs @ (q # ks)" using r(2) by simp
    moreover have "set (q # ks) \<subseteq> set (q # qs)" using r(3) by auto
    moreover have "\<forall>p. lookup fs p \<noteq> None \<longrightarrow> lookup fs1 p = lookup fs p"
      using r(4) by (auto simp add: lookup_append_dir split: option.splits)
    moreover have "\<forall>q'\<in>set (q # qs). is_dir fs1 q'"
      using r(4,5) q by (auto simp add: is_dir_def)
    ultimately show ?thesis by blast
  next
    case (Some v)
    then have v: "v = Dir" using Cons.prems by (cases v) auto
    have "\<forall>q'\<in>set qs. \<forall>b. lookup fs q' \<noteq> Some (File b)" using Cons.prems by simp
    from Cons.IH [OF this] obtain fs1 ks where r: "mkdirs fs qs = Inr fs1"
      "map fst fs1 = map fst fs @ ks" "set ks \<subseteq> set qs"
      "\<forall>p. lookup fs p \<noteq> None \<longrightarrow> lookup fs1 p = lookup fs p" "\<forall>q\<in>set qs. is_dir fs1 q"
      by blast
    have "mkdirs fs (q # qs) = Inr fs1" using Some v r(1) by simp
    moreover have "set ks \<subseteq> set (q # qs)" using r(3) by auto
    moreover have "\<forall>q'\<in>set (q # qs). is_dir fs1 q'"
      using r(4,5) Some v by (auto simp add: is_dir_def)
    ultimately show ?thesis using r(2,4) by blast
  qed
qed

lemma lookup_root: "lookup fs [] = Some Dir"
  by (simp add: lookup_def)

lemma lookup_None_iff: "p \<noteq> [] \<Longrightarrow> lookup fs p = None \<longleftrightarrow> p \<notin> set (map fst fs)"
  by (simp add: lookup_def map_of_eq_None_iff)

lemma write_frames_ok:
  assumes "is_dir (disk w) d"
    and "\<forall>f\<in>set frames. \<exists>s b. map_of f ''base64'' = Some s \<and> b64decode env s = Some b"
    and "0 \<le> i" and "i + int (length frames) \<le> 100"
    and "\<forall>p\<in>set (frame_paths d i (length frames)). p \<notin> set (map fst (disk w))"
  shows "\<exists>w'. write_frames env d i frames paths w
             = (Inr (paths @ frame_paths d i (length frames)), w')
      \<and> map fst (disk w') = map fst (disk w) @ frame_paths d i (length frames)
      \<and> (\<forall>p. p \<notin> set (frame_paths d i (length frames)) \<longrightarrow> lookup (disk w') p = lookup (disk w) p)
      \<and> (\<forall>k<length frames. \<exists>s b. map_of (frames ! k) ''base64'' = Some s \<and> b64decode env s = Some b
            \<and> lookup (disk w') (d @ [frame_name (i + int k)]) = Some (File b))
      \<and> calls w' = calls w \<and> out w' = out w"
  using assms
proof (induction frames arbitrary: i paths w)
  case Nil
  then show ?case by simp
next
  case (Cons frame rest)
  let ?p = "d @ [frame_name i]"
  let ?n = "length rest"
  obtain s b where sb: "map_of frame ''base64'' = Some s" "b64decode env s = Some b"
    using Cons.prems(2) by auto
  have fp: "frame_paths d i (length (frame # rest)) = ?p # frame_paths d (i + 1) ?n"
    by (simp add: frame_paths_Suc)
  have pfresh: "?p \<notin> set (map fst (disk w))"
    using Cons.prems(5) fp by simp
  then have pnone: "lookup (disk w) ?p = None"
    by (simp add: lookup_None_iff)
  have op: "open_wb (disk w) ?p = Inr (AList.update ?p (File []) (disk w))"
    using pnone Cons.prems(1) by (simp add: open_wb_def is_dir_def parent_def)
  let ?w1 = "w\<lparr>disk := AList.update ?p (File b) (disk w)\<rparr>"
  have step: "write_frames env d i (frame # rest) paths w
      = write_frames env d (i + 1) rest (paths @ [?p]) ?w1"
    using op sb by (simp add: write_bytes_def Let_def)
  have keys1: "map fst (disk ?w1) = map fst (disk w) @ [?p]"
    using pfresh by (simp add: update_keys)
  have dir1: "is_dir (disk ?w1) d"
    using Cons.prems(1) by (simp add: is_dir_def lookup_update)
  have notin: "?p \<notin> set (frame_paths d (i + 1) ?n)"
    using Cons.prems(3,4) by (intro first_not_in_rest) auto
  have fresh1: "\<forall>p\<in>set (frame_paths d (i + 1) ?n). p \<notin> set (map fst (disk ?w1))"
    using Cons.prems(5) fp notin keys1 by auto
  have dec1: "\<forall>f\<in>set rest. \<exists>s b. map_of f ''base64'' = Some s \<and> b64decode env s = Some b"
    using Cons.prems(2) by simp
  have rng: "0 \<le> i + 1" "i + 1 + int ?n \<le> 100"
    using Cons.prems(3,4) by auto
  from Cons.IH [OF dir1 dec1 rng fresh1, of "paths @ [?p]"]
  obtain w' where r: "write_frames env d (i + 1) rest (paths @ [?p]) ?w1
         = (Inr ((paths @ [?p]) @ frame_paths d (i + 1) ?n), w')"
      "map fst (disk w') = map fst (disk ?w1) @ frame_paths d (i + 1) ?n"
      "\<forall>p. p \<notin> set (frame_paths d (i + 1) ?n) \<longrightarrow> lookup (disk w') p = lookup (disk ?w1) p"
      "\<forall>k<?n. \<exists>s b. map_of (rest ! k) ''base64'' = Some s \<and> b64decode env s = Some b
            \<and> lookup (disk w') (d @ [frame_name (i + 1 + int k)]) = Some (File b)"
      "calls w' = calls ?w1" "out w' = out ?w1"
    by blast
  have g1: "write_frames env d i (frame # rest) paths w
             = (Inr (paths @ frame_paths d i (length (frame # rest))), w')"
    using step r(1) fp by simp
  have g2: "map fst (disk w') = map fst (disk w) @ frame_paths d i (length (frame # rest))"
    using r(2) keys1 fp by simp
  have g3: "\<forall>q. q \<notin> set (frame_paths d i (length (frame # rest)))
              \<longrightarrow> lookup (disk w') q = lookup (disk w) q"
    using r(3) fp by (auto simp add: lookup_update lookup_root)
  have first: "lookup (disk w') ?p = Some (File b)"
    using r(3) notin by (simp add: lookup_update)
  have g4: "\<forall>k<length (frame # rest). \<exists>s b. map_of ((frame # rest) ! k) ''base64'' = Some s
            \<and> b64decode env s = Some b
            \<and> lookup (disk w') (d @ [frame_name (i + int k)]) = Some (File b)"
  proof (intro allI impI)
    fix k assume k: "k < length (frame # rest)"
    show "\<exists>s b. map_of ((frame # rest) ! k) ''base64'' = Some s \<and> b64decode env s = Some b
            \<and> lookup (disk w') (d @ [frame_name (i + int k)]) = Some (File b)"
    proof (cases k)
      case 0
      then show ?thesis using sb first by simp
    next
      case (Suc k')
      then have "k' < ?n" using k by simp
      with r(4) obtain s' b' where "map_of (rest ! k') ''base64'' = Some s'"
        "b64decode env s' = Some b'"
        "lookup (disk w') (d @ [frame_name (i + 1 + int k')]) = Some (File b')" by blast
      moreover have "i + int k = i + 1 + int k'" using Suc by simp
      ultimately show ?thesis using Suc by (simp add: add.assoc)
    qed
  qed
  have g5: "calls w' = calls w \<and> out w' = out w" using r(5,6) by simp
  show ?case using g1 g2 g3 g4 g5 by blast
qed

lemma sorted_frame_paths:
  assumes "0 \<le> i" and "i + int n \<le> 100"
  shows "sorted (frame_paths d i n)"
proof -
  have "frame_paths d i n ! a \<le> frame_paths d i n ! b" if "a < b" "b < n" for a b
  proof -
    have "frame_name (i + int a) < frame_name (i + int b)"
      using assms that by (intro frame_name_less) auto
    then have "d @ [frame_name (i + int a)] < d @ [frame_name (i + int b)]"
      by (rule path_append_less)
    then show ?thesis using that by (simp add: nth_frame_paths)
  qed
  then show ?thesis by (simp add: sorted_iff_nth_mono_less)
qed

lemma frame_path_is_entry:
  "filter (\<lambda>p. p \<noteq> [] \<and> parent p = d \<and> matches_frame_pattern (last p)) (frame_paths d i n)
     = frame_paths d i n"
  by (simp add: frame_paths_def parent_def matches_frame_name filter_id_conv)

lemma prefix_not_entry:
  assumes "set ks \<subseteq> set (prefixes d)"
  shows "filter (\<lambda>p. p \<noteq> [] \<and> parent p = d \<and> matches_frame_pattern (last p)) ks = []"
proof -
  have "\<not> (k \<noteq> [] \<and> parent k = d)" if "k \<in> set ks" for k
  proof
    assume a: "k \<noteq> [] \<and> parent k = d"
    have "prefix k d" using that assms by (auto simp add: in_set_prefixes)
    then have "length k \<le> length d" by (rule prefix_length_le)
    moreover have "length d = length k - 1" using a by (auto simp add: parent_def)
    moreover have "0 < length k" using a by simp
    ultimately show False by linarith
  qed
  then show ?thesis by (auto simp add: filter_empty_conv)
qed


text \<open>
  C2.  Saving \<open>N\<close> frames from a start index \<open>offset\<close> with \<open>0 \<le> offset\<close> and
  \<open>offset + N \<le> 100\<close>, into a directory that holds no frame file and can be created,
  every frame carrying a payload that decodes, returns the \<open>N\<close> paths in input order;
  listing the directory afterwards yields exactly these \<open>N\<close> paths, the \<open>k\<close>-th named
  by the two-digit zero-padded index \<open>offset + k\<close> and holding the decoded payload of
  the \<open>k\<close>-th frame.  \<open>save_frames\<close> is the case \<open>offset = 0\<close>.
\<close>

theorem frame_codec_roundtrip:
  assumes "0 \<le> offset" and "offset + int (length frames) \<le> 100"
    and "\<forall>f\<in>set frames. \<exists>s b. map_of f ''base64'' = Some s \<and> b64decode env s = Some b"
    and "frame_entries (disk w) d = []"
    and "\<forall>q\<in>set (prefixes d). \<forall>b. lookup (disk w) q \<noteq> Some (File b)"
  shows "\<exists>w'. save_frames_offset env frames d offset w
                = (Inr (frame_paths d offset (length frames)), w')
      \<and> list_frames (disk w') d = frame_paths d offset (length frames)
      \<and> length (list_frames (disk w') d) = length frames
      \<and> (\<forall>k<length frames.
            list_frames (disk w') d ! k = d @ [frame_name (offset + int k)]
            \<and> two_digit_frame_name (frame_name (offset + int k))
            \<and> (\<exists>s b. map_of (frames ! k) ''base64'' = Some s \<and> b64decode env s = Some b
                  \<and> lookup (disk w') (list_frames (disk w') d ! k) = Some (File b)))
      \<and> save_frames env frames d w = save_frames_offset env frames d 0 w"
proof -
  let ?n = "length frames"
  let ?P = "\<lambda>p. p \<noteq> [] \<and> parent p = d \<and> matches_frame_pattern (last p)"
  from mkdirs_ok [OF assms(5)] obtain fs1 ks where m: "mkdirs (disk w) (prefixes d) = Inr fs1"
    "map fst fs1 = map fst (disk w) @ ks" "set ks \<subseteq> set (prefixes d)"
    "\<forall>q\<in>set (prefixes d). is_dir fs1 q"
    by blast
  let ?w1 = "w\<lparr>disk := fs1\<rparr>"
  have dir1: "is_dir (disk ?w1) d" using m(4) by (simp add: in_set_prefixes)
  have ent1: "frame_entries fs1 d = []"
    using assms(4) m(2) prefix_not_entry [OF m(3)] by (simp add: frame_entries_def)
  have fresh: "\<forall>p\<in>set (frame_paths d offset ?n). p \<notin> set (map fst (disk ?w1))"
  proof
    fix p assume p: "p \<in> set (frame_paths d offset ?n)"
    then have "?P p" by (auto simp add: set_frame_paths parent_def matches_frame_name)
    then have "p \<in> set (map fst fs1) \<Longrightarrow> p \<in> set (frame_entries fs1 d)"
      by (simp add: frame_entries_def)
    then show "p \<notin> set (map fst (disk ?w1))" using ent1 by auto
  qed
  from write_frames_ok [OF dir1 assms(3) assms(1) assms(2) fresh, of "[]"]
  obtain w' where r: "write_frames env d offset frames [] ?w1 = (Inr (frame_paths d offset ?n), w')"
    "map fst (disk w') = map fst (disk ?w1) @ frame_paths d offset ?n"
    "\<forall>p. p \<notin> set (frame_paths d offset ?n) \<longrightarrow> lookup (disk w') p = lookup (disk ?w1) p"
    "\<forall>k<?n. \<exists>s b. map_of (frames ! k) ''base64'' = Some s \<and> b64decode env s = Some b
            \<and> lookup (disk w') (d @ [frame_name (offset + int k)]) = Some (File b)"
    by auto
  have g1: "save_frames_offset env frames d offset w = (Inr (frame_paths d offset ?n), w')"
    using m(1) r(1) by (simp add: save_frames_offset_def mkdir_parents_def)
  have "d \<notin> set (frame_paths d offset ?n)" by (auto simp add: set_frame_paths)
  then have dir': "is_dir (disk w') d" using r(3) dir1 by (simp add: is_dir_def)
  have "frame_entries (disk w') d = frame_entries fs1 d @ filter ?P (frame_paths d offset ?n)"
    using r(2) by (simp add: frame_entries_def)
  then have "glob_frames (disk w') d = frame_paths d offset ?n"
    using dir' ent1 by (simp add: glob_frames_def frame_path_is_entry)
  then have g2: "list_frames (disk w') d = frame_paths d offset ?n"
    using sorted_frame_paths [OF assms(1) assms(2), of d]
    by (simp add: list_frames_def sorted_sort_id)
  have g4: "\<forall>k<?n. list_frames (disk w') d ! k = d @ [frame_name (offset + int k)]
            \<and> two_digit_frame_name (frame_name (offset + int k))
            \<and> (\<exists>s b. map_of (frames ! k) ''base64'' = Some s \<and> b64decode env s = Some b
                  \<and> lookup (disk w') (list_frames (disk w') d ! k) = Some (File b))"
  proof (intro allI impI)
    fix k assume k: "k < ?n"
    have "two_digit_frame_name (frame_name (offset + int k))"
      using assms(1,2) k by (intro frame_name_two_digit) auto
    then show "list_frames (disk w') d ! k = d @ [frame_name (offset + int k)]
            \<and> two_digit_frame_name (frame_name (offset + int k))
            \<and> (\<exists>s b. map_of (frames ! k) ''base64'' = Some s \<and> b64decode env s = Some b
                  \<and> lookup (disk w') (list_frames (disk w') d ! k) = Some (File b))"
      using r(4) k g2 by (simp add: nth_frame_paths)
  qed
  have g5: "save_frames env frames d w = save_frames_offset env frames d 0 w"
    by (simp add: save_frames_def save_frames_offset_def)
  have g3: "length (list_frames (disk w') d) = length frames" using g2 by simp
  show ?thesis by (intro exI [of _ w'] conjI g1 g2 g3 g4 g5)
qed

theorem frame_codec_counterexample:
  "fst (save_frames_offset example_env [[(''base64'', ''AAAA'')]] [''proj'', ''empty''] 100 empty_dir_world)
     = Inr [[''proj'', ''empty'', ''frame_100.png'']]
   \<and> list_frames (disk (snd (save_frames_offset example_env [[(''base64'', ''AAAA'')]]
         [''proj'', ''empty''] 100 empty_dir_world))) [''proj'', ''empty'']
     = [[''proj'', ''empty'', ''frame_100.png'']]
   \<and> \<not> two_digit_frame_name ''frame_100.png''"
  by code_simp

theorem frame_codec_roundtrip_witness:
  "\<exists>w'. save_frames_offset example_env [[(''base64'', ''AAAA'')], [(''base64'', ''BBBB'')]]
            [''proj'', ''empty''] 16 empty_dir_world
          = (Inr [[''proj'', ''empty'', ''frame_16.png''], [''proj'', ''empty'', ''frame_17.png'']], w')
      \<and> list_frames (disk w') [''proj'', ''empty'']
          = [[''proj'', ''empty'', ''frame_16.png''], [''proj'', ''empty'', ''frame_17.png'']]"
proof -
  let ?frames = "[[(''base64'', ''AAAA'')], [(''base64'', ''BBBB'')]]"
  let ?d = "[''proj'', ''empty'']"
  have h1: "(0::int) \<le> 16" and h2: "16 + int (length ?frames) \<le> 100" by simp_all
  have h3: "\<forall>f\<in>set ?frames. \<exists>s b. map_of f ''base64'' = Some s \<and> b64decode example_env s = Some b"
    by (simp add: example_env_def)
  have h4: "frame_entries (disk empty_dir_world) ?d = []"
    by (simp add: frame_entries_def empty_dir_world_def parent_def)
  have h5: "\<forall>q\<in>set (prefixes ?d). \<forall>b. lookup (disk empty_dir_world) q \<noteq> Some (File b)"
    by (simp add: empty_dir_world_def lookup_def)
  have fp: "frame_paths ?d 16 (length ?frames)
      = [[''proj'', ''empty'', ''frame_16.png''], [''proj'', ''empty'', ''frame_17.png'']]"
    by code_simp
  show ?thesis
    using frame_codec_roundtrip [OF h1 h2 h3 h4 h5] fp by auto
qed

subsection \<open>The file system only grows\<close>

lemma extends_refl [simp]: "extends fs fs"
  by (simp add: extends_def)











lemma path_exists_iff: "path_exists fs p \<longleftrightarrow> p = [] \<or> p \<in> set (map fst fs)"
  by (cases "p = []") (simp_all add: path_exists_def lookup_root lookup_None_iff)

lemma extends_keys: "extends fs fs' \<Longrightarrow> set (map fst fs) \<subseteq> set (map fst fs')"
proof -
  assume "extends fs fs'"
  then obtain ks where "map fst fs' = map fst fs @ ks" by (auto simp add: extends_def)
  then have "set (map fst fs') = set (map fst fs) \<union> set ks" by (simp only: set_append)
  then show ?thesis by blast
qed

lemma extends_path_exists: "extends fs fs' \<Longrightarrow> path_exists fs p \<Longrightarrow> path_exists fs' p"
  using extends_keys [of fs fs'] by (auto simp only: path_exists_iff)

lemma extends_frame_entries:
  assumes "extends fs fs'"
  shows "length (frame_entries fs d) \<le> length (frame_entries fs' d)"
proof -
  obtain ks where "map fst fs' = map fst fs @ ks" using assms by (auto simp add: extends_def)
  then have "frame_entries fs' d = frame_entries fs d
      @ filter (\<lambda>p. p \<noteq> [] \<and> parent p = d \<and> matches_frame_pattern (last p)) ks"
    by (simp only: frame_entries_def filter_append)
  then show ?thesis by simp
qed

lemma extends_has_frames:
  assumes "extends fs fs'" and "has_frames fs d n"
  shows "has_frames fs' d n"
proof (cases "is_dir fs d")
  case True
  then have "is_dir fs' d" using assms(1) by (simp add: extends_def)
  with True assms extends_frame_entries [OF assms(1), of d] extends_path_exists [OF assms(1), of d]
  show ?thesis by (auto simp add: has_frames_def glob_frames_def split: if_splits)
next
  case False
  with assms extends_path_exists [OF assms(1), of d]
  show ?thesis by (auto simp add: has_frames_def glob_frames_def split: if_splits)
qed

subsection \<open>Frame names are distinct\<close>








subsection \<open>What each operation leaves alone\<close>









subsection \<open>The step loop of chains and journeys\<close>















subsection \<open>Emotes\<close>













subsection \<open>Cost of a run\<close>

text \<open>
  C5.  The total of a singles run is not always the sum of the costs of the remote calls
  that succeeded.  In \<open>blocked_world\<close> the one call of the run succeeds and costs 0.16, the
  frames cannot be saved because a regular file is in the place of the frame directory, and
  the run ends with the total 0: \<open>generate_singles\<close> adds the cost only after \<open>save_frames\<close>
  has returned.
\<close>

theorem cost_lost_when_save_fails:
  "fst (generate_singles example_env example_config (Some [''flame'']) blocked_world) = 0
   \<and> map snd (calls (snd (generate_singles example_env example_config (Some [''flame''])
         blocked_world)))
       = [Succeeded [[(''type'', ''base64''), (''base64'', ''AAAA''), (''format'', ''png'')]] (4 / 25)]
   \<and> out (snd (generate_singles example_env example_config (Some [''flame'']) blocked_world))
       = [Banner ''singles'' 1 1, Started ''Generating'' ''flame'', ErrorLine OSError,
          Complete ''Singles'' 0]"
  by code_simp

end
